theory Spec2Isabelle
  imports Main "HOL-Library.AList"
begin

section \<open>MorphStorm: peer sessions, key exchange and the signaling client\<close>

text \<open>
  A shallow embedding of \<^verbatim>\<open>MorphRTC\<close> and of the reconnection logic of
  \<^verbatim>\<open>MorphSignaling\<close> (src/js/crypto.js).

  \<^item> The \<^verbatim>\<open>peers\<close> Map is an association list: a JavaScript Map iterates in
    insertion order, \<^verbatim>\<open>set\<close> on a present key keeps its position
    (\<open>AList.update\<close>), \<^verbatim>\<open>delete\<close> removes the entry (\<open>AList.delete\<close>).
  \<^item> Each call and each event handler runs to completion: an \<^verbatim>\<open>await\<close> is
    evaluated on the spot, so the peer object a handler holds is the entry of the table
    under its id. What another handler does between an \<^verbatim>\<open>await\<close> and its
    resumption is not part of this model.
  \<^item> \<^verbatim>\<open>emit\<close> appends to the list \<open>events\<close> (the subscribers that
    \<^verbatim>\<open>MorphApp\<close> installs only read the table); \<^verbatim>\<open>console.log/warn/error\<close>
    append to \<open>console\<close>; \<^verbatim>\<open>MorphSignaling.sendSignal\<close> appends to \<open>signals\<close>;
    \<^verbatim>\<open>dc.send\<close> appends to the channel's \<open>sent\<close>.
  \<^item> The code after an \<^verbatim>\<open>await\<close> is given a second time, for a handler that resumes
    when the session object it holds is no longer the one in the table (the functions
    \<open>_resumed_stale\<close>): its writes to that object do not reach the table, its calls by
    peer id do.
  \<^item> The cryptography provider, JSON and the transport provider are parameters (the
    record \<open>env\<close>); a rejected promise or a thrown exception is the value \<open>None\<close> or
    \<open>False\<close>.
  \<^item> Console lines are ASCII: the emoji of the line that reports an encrypted channel is
    left out.
\<close>

subsection \<open>Data model\<close>

type_synonym peer_id = string
type_synonym jwk = string
type_synonym crypto_key = nat
type_synonym sdp = string
type_synonym candidate = string

record message =
  msg_text :: string
  msg_time :: int
  msg_type :: string

text \<open>
  What \<^verbatim>\<open>JSON.parse\<close> makes of a decrypted frame: the fields of a chat message, and the
  payload's own \<^verbatim>\<open>fromPeerId\<close> and \<^verbatim>\<open>fromName\<close> when it carries them.
\<close>

record payload =
  own_fromPeerId :: "string option"
  own_fromName :: "string option"
  body :: message

text \<open>
  What travels on a data channel. \<open>Control pk\<close> is a string that \<^verbatim>\<open>JSON.parse\<close>
  turns into an object whose \<^verbatim>\<open>_morph\<close> is \<^verbatim>\<open>'key-exchange'\<close> and whose
  \<^verbatim>\<open>publicKey\<close> is \<open>pk\<close> (\<open>None\<close> when missing or falsy); \<open>Data raw\<close> is any
  other string.
\<close>

datatype wire = Control "jwk option" | Data string

text \<open>\<^verbatim>\<open>RTCDataChannel.readyState\<close> and \<^verbatim>\<open>RTCPeerConnection.iceConnectionState\<close>.\<close>

datatype ready_state = DcConnecting | DcOpen | DcClosing | DcClosed

datatype ice_state =
  IceNew | IceChecking | IceConnected | IceCompleted | IceFailed | IceDisconnected | IceClosed

record channel =
  readyState :: ready_state
  sent :: "wire list"

record connection =
  remoteDescription :: "sdp option"
  localDescription :: "sdp option"
  remoteCandidates :: "candidate list"

text \<open>The field \<^verbatim>\<open>state\<close> of a peer: \<^verbatim>\<open>'connecting'\<close>, \<^verbatim>\<open>'open'\<close>, \<^verbatim>\<open>'encrypted'\<close>.\<close>

datatype peer_state = StConnecting | StOpen | StEncrypted

record peer =
  connection :: connection
  dataChannel :: "channel option"
  sharedKey :: "crypto_key option"
  name :: string
  state :: peer_state
  isInitiator :: bool
  pendingMessages :: "message list"

datatype signal =
  Offer sdp
| Answer sdp
| IceCandidate "candidate option"
| KeyExchange "jwk option"
| OtherSignal

datatype event =
  PeerConnected peer_id "string option"
| PeerEncrypted peer_id string
| PeerDisconnected peer_id string
| MessageReceived peer_id string message

datatype log_line = ConsoleLog string | ConsoleWarn string | ConsoleError string

datatype error = NegotiationFailure

record rtc =
  peers :: "(peer_id \<times> peer) list"
  events :: "event list"
  console :: "log_line list"
  signals :: "(peer_id \<times> signal) list"

text \<open>
  The external collaborators. \<open>completeKeyExchange\<close> is
  \<^verbatim>\<open>MorphCrypto.completeKeyExchange(myKeyPair, _)\<close>; \<open>dc_send_ok\<close> says whether
  \<^verbatim>\<open>dc.send\<close> on an open channel accepts the frame or throws.
\<close>

record env =
  myPublicKeyJwk :: jwk
  completeKeyExchange :: "jwk \<Rightarrow> crypto_key option"
  encrypt :: "crypto_key \<Rightarrow> string \<Rightarrow> string option"
  decrypt :: "crypto_key \<Rightarrow> string \<Rightarrow> string option"
  JSON_stringify :: "message \<Rightarrow> string"
  JSON_parse :: "string \<Rightarrow> payload option"
  dc_send_ok :: "string \<Rightarrow> bool"
  createOffer :: "sdp option"
  createAnswer :: "sdp \<Rightarrow> sdp option"
  setRemoteDescription_ok :: "sdp \<Rightarrow> bool"
  addIceCandidate_ok :: "candidate \<Rightarrow> bool"

subsection \<open>MorphRTC\<close>

definition emit :: "event \<Rightarrow> rtc \<Rightarrow> rtc" where
  "emit e s = s\<lparr>events := events s @ [e]\<rparr>"

text \<open>
  The object \<^verbatim>\<open>{ fromPeerId: peerId, fromName: peer.name, ...message }\<close>: a field of the
  payload with one of the two names replaces the value the handler wrote.
\<close>

definition message_event :: "peer_id \<Rightarrow> string \<Rightarrow> payload \<Rightarrow> event" where
  "message_event peerId peerName pl =
     MessageReceived
       (case own_fromPeerId pl of None \<Rightarrow> peerId | Some i \<Rightarrow> i)
       (case own_fromName pl of None \<Rightarrow> peerName | Some n \<Rightarrow> n)
       (body pl)"

definition console_out :: "log_line \<Rightarrow> rtc \<Rightarrow> rtc" where
  "console_out l s = s\<lparr>console := console s @ [l]\<rparr>"

definition sendSignal :: "peer_id \<Rightarrow> signal \<Rightarrow> rtc \<Rightarrow> rtc" where
  "sendSignal targetPeerId sig s = s\<lparr>signals := signals s @ [(targetPeerId, sig)]\<rparr>"

text \<open>A write through the reference \<^verbatim>\<open>peer\<close> to the object stored under \<open>peerId\<close>.\<close>

definition set_peer :: "peer_id \<Rightarrow> peer \<Rightarrow> rtc \<Rightarrow> rtc" where
  "set_peer peerId p s = s\<lparr>peers := AList.update peerId p (peers s)\<rparr>"

definition new_connection :: connection where
  "new_connection = \<lparr>remoteDescription = None, localDescription = None, remoteCandidates = []\<rparr>"

text \<open>\<^verbatim>\<open>handlePeerDisconnect\<close>: the closed connection leaves the state with its session.\<close>

definition handlePeerDisconnect :: "peer_id \<Rightarrow> rtc \<Rightarrow> rtc" where
  "handlePeerDisconnect peerId s =
     (case map_of (peers s) peerId of
        None \<Rightarrow> s
      | Some p \<Rightarrow>
          emit (PeerDisconnected peerId (name p))
            (s\<lparr>peers := AList.delete peerId (peers s)\<rparr>))"

definition sendToPeer :: "env \<Rightarrow> peer_id \<Rightarrow> message \<Rightarrow> rtc \<Rightarrow> bool \<times> rtc" where
  "sendToPeer E peerId messageObj s =
     (case map_of (peers s) peerId of
        None \<Rightarrow> (False, s)
      | Some p \<Rightarrow>
          (case sharedKey p of
             None \<Rightarrow>
               (True, set_peer peerId (p\<lparr>pendingMessages := pendingMessages p @ [messageObj]\<rparr>) s)
           | Some k \<Rightarrow>
               (case dataChannel p of
                  None \<Rightarrow> (False, console_out (ConsoleWarn (''[RTC] Channel not open for '' @ peerId)) s)
                | Some dc \<Rightarrow>
                    if readyState dc \<noteq> DcOpen
                    then (False, console_out (ConsoleWarn (''[RTC] Channel not open for '' @ peerId)) s)
                    else
                      (case encrypt E k (JSON_stringify E messageObj) of
                         None \<Rightarrow> (False, console_out (ConsoleError (''[RTC] Send error to '' @ peerId @ '':'')) s)
                       | Some encrypted \<Rightarrow>
                           if dc_send_ok E encrypted
                           then (True, set_peer peerId
                                   (p\<lparr>dataChannel := Some (dc\<lparr>sent := sent dc @ [Data encrypted]\<rparr>)\<rparr>) s)
                           else (False, console_out (ConsoleError (''[RTC] Send error to '' @ peerId @ '':'')) s)))))"

text \<open>The loop \<^verbatim>\<open>for (const msg of peer.pendingMessages) await sendToPeer(fromPeerId, msg)\<close>.\<close>

primrec flushPending :: "env \<Rightarrow> peer_id \<Rightarrow> message list \<Rightarrow> rtc \<Rightarrow> rtc" where
  "flushPending E peerId [] s = s"
| "flushPending E peerId (msg # msgs) s = flushPending E peerId msgs (snd (sendToPeer E peerId msg s))"

text \<open>The assignment \<^verbatim>\<open>peer.pendingMessages = []\<close> after the loop.\<close>

definition clearPending :: "peer_id \<Rightarrow> rtc \<Rightarrow> rtc" where
  "clearPending peerId s =
     (case map_of (peers s) peerId of
        None \<Rightarrow> s
      | Some p \<Rightarrow> set_peer peerId (p\<lparr>pendingMessages := []\<rparr>) s)"

definition handleSignal :: "env \<Rightarrow> peer_id \<Rightarrow> string \<Rightarrow> signal \<Rightarrow> rtc \<Rightarrow> error option \<times> rtc" where
  "handleSignal E fromPeerId fromPeerName sig s =
     (case sig of
        Offer remote \<Rightarrow>
          (let s1 = console_out (ConsoleLog (''[RTC] Received offer from '' @ fromPeerName)) s;
               peerState = \<lparr>connection = new_connection, dataChannel = None, sharedKey = None,
                            name = fromPeerName, state = StConnecting, isInitiator = False,
                            pendingMessages = []\<rparr>;
               s2 = set_peer fromPeerId peerState s1
           in if \<not> setRemoteDescription_ok E remote then (Some NegotiationFailure, s2)
              else
                (let pc1 = new_connection\<lparr>remoteDescription := Some remote\<rparr>;
                     s3 = set_peer fromPeerId (peerState\<lparr>connection := pc1\<rparr>) s2
                 in case createAnswer E remote of
                      None \<Rightarrow> (Some NegotiationFailure, s3)
                    | Some answer \<Rightarrow>
                        (None,
                         sendSignal fromPeerId (Answer answer)
                           (set_peer fromPeerId
                              (peerState\<lparr>connection := pc1\<lparr>localDescription := Some answer\<rparr>\<rparr>) s3))))
      | Answer remote \<Rightarrow>
          (let s1 = console_out (ConsoleLog (''[RTC] Received answer from '' @ fromPeerName)) s
           in case map_of (peers s1) fromPeerId of
                None \<Rightarrow> (None, s1)
              | Some p \<Rightarrow>
                  if setRemoteDescription_ok E remote
                  then (None, set_peer fromPeerId
                                (p\<lparr>connection := (connection p)\<lparr>remoteDescription := Some remote\<rparr>\<rparr>) s1)
                  else (Some NegotiationFailure, s1))
      | IceCandidate c \<Rightarrow>
          (case (map_of (peers s) fromPeerId, c) of
             (Some p, Some cand) \<Rightarrow>
               if addIceCandidate_ok E cand
               then (None, set_peer fromPeerId
                             (p\<lparr>connection := (connection p)
                                  \<lparr>remoteCandidates := remoteCandidates (connection p) @ [cand]\<rparr>\<rparr>) s)
               else (None, console_out (ConsoleWarn ''[RTC] ICE candidate error:'') s)
           | _ \<Rightarrow> (None, s))
      | KeyExchange pk \<Rightarrow>
          (case (map_of (peers s) fromPeerId, pk) of
             (Some p, Some publicKey) \<Rightarrow>
               (case completeKeyExchange E publicKey of
                  None \<Rightarrow> (None, console_out (ConsoleError ''[RTC] Key exchange failed:'') s)
                | Some k \<Rightarrow>
                    (let s1 = set_peer fromPeerId (p\<lparr>sharedKey := Some k, state := StEncrypted\<rparr>) s;
                         s2 = console_out (ConsoleLog (''[RTC] Encrypted channel with '' @ name p)) s1;
                         s3 = emit (PeerEncrypted fromPeerId (name p)) s2;
                         s4 = flushPending E fromPeerId (pendingMessages p) s3
                     in (None, clearPending fromPeerId s4)))
           | _ \<Rightarrow> (None, s))
      | OtherSignal \<Rightarrow> (None, s))"

text \<open>
  \<^verbatim>\<open>connectToPeer\<close>: the session is stored before the offer is created, so a
  rejected \<^verbatim>\<open>createOffer\<close> leaves it in the table.
\<close>

definition connectToPeer :: "env \<Rightarrow> peer_id \<Rightarrow> string \<Rightarrow> rtc \<Rightarrow> error option \<times> rtc" where
  "connectToPeer E peerId peerName s =
     (let s1 = console_out (ConsoleLog (''[RTC] Initiating connection to '' @ peerName @ '' ('' @ peerId @ '')'')) s;
          peerState = \<lparr>connection = new_connection,
                       dataChannel = Some \<lparr>readyState = DcConnecting, sent = []\<rparr>,
                       sharedKey = None, name = peerName, state = StConnecting,
                       isInitiator = True, pendingMessages = []\<rparr>;
          s2 = set_peer peerId peerState s1
      in case createOffer E of
           None \<Rightarrow> (Some NegotiationFailure, s2)
         | Some offer \<Rightarrow>
             (None,
              sendSignal peerId (Offer offer)
                (set_peer peerId
                   (peerState\<lparr>connection := new_connection\<lparr>localDescription := Some offer\<rparr>\<rparr>) s2)))"

text \<open>
  The handlers installed by \<^verbatim>\<open>setupPeerConnection\<close> and \<^verbatim>\<open>setupDataChannel\<close>.
  The channel \<^verbatim>\<open>dc\<close> of a handler is the \<open>dataChannel\<close> of the session under
  \<open>peerId\<close>; the browser sets \<open>readyState\<close> before it fires \<^verbatim>\<open>onopen\<close>.
\<close>

fun ice_state_text :: "ice_state \<Rightarrow> string" where
  "ice_state_text IceNew = ''new''"
| "ice_state_text IceChecking = ''checking''"
| "ice_state_text IceConnected = ''connected''"
| "ice_state_text IceCompleted = ''completed''"
| "ice_state_text IceFailed = ''failed''"
| "ice_state_text IceDisconnected = ''disconnected''"
| "ice_state_text IceClosed = ''closed''"

definition oniceconnectionstatechange :: "peer_id \<Rightarrow> ice_state \<Rightarrow> rtc \<Rightarrow> rtc" where
  "oniceconnectionstatechange peerId st s =
     (let s1 = console_out
                 (ConsoleLog (''[RTC] ICE state ('' @ peerId @ ''): '' @ ice_state_text st)) s
      in if st = IceDisconnected \<or> st = IceFailed \<or> st = IceClosed
         then handlePeerDisconnect peerId s1 else s1)"

definition dc_onopen :: "env \<Rightarrow> peer_id \<Rightarrow> rtc \<Rightarrow> rtc" where
  "dc_onopen E peerId s =
     (let s1 = console_out (ConsoleLog (''[RTC] DataChannel OPEN with '' @ peerId)) s;
          s2 = (case map_of (peers s1) peerId of
                  None \<Rightarrow> s1
                | Some p \<Rightarrow>
                    set_peer peerId
                      (p\<lparr>state := StOpen,
                         dataChannel :=
                           map_option (\<lambda>dc. dc\<lparr>sent := sent dc @ [Control (Some (myPublicKeyJwk E))]\<rparr>)
                             (dataChannel p)\<rparr>) s1)
      in emit (PeerConnected peerId (map_option name (map_of (peers s) peerId))) s2)"

definition dc_onmessage :: "env \<Rightarrow> peer_id \<Rightarrow> wire \<Rightarrow> rtc \<Rightarrow> rtc" where
  "dc_onmessage E peerId raw s =
     (case map_of (peers s) peerId of
        None \<Rightarrow> s
      | Some p \<Rightarrow>
          (case raw of
             Control pk \<Rightarrow>
               (case handleSignal E peerId (name p) (KeyExchange pk) s of
                  (None, s') \<Rightarrow> s'
                | (Some err, s') \<Rightarrow> console_out (ConsoleError ''[RTC] Message decode error:'') s')
           | Data d \<Rightarrow>
               (case sharedKey p of
                  None \<Rightarrow> console_out (ConsoleWarn ''[RTC] Message received but no shared key yet'') s
                | Some k \<Rightarrow>
                    (case decrypt E k d of
                       None \<Rightarrow> console_out (ConsoleError ''[RTC] Message decode error:'') s
                     | Some decrypted \<Rightarrow>
                         (case JSON_parse E decrypted of
                            None \<Rightarrow> console_out (ConsoleError ''[RTC] Message decode error:'') s
                          | Some m \<Rightarrow> emit (message_event peerId (name p) m) s)))))"

definition dc_onclose :: "peer_id \<Rightarrow> rtc \<Rightarrow> rtc" where
  "dc_onclose peerId s =
     handlePeerDisconnect peerId
       (console_out (ConsoleLog (''[RTC] DataChannel CLOSED with '' @ peerId)) s)"

definition dc_onerror :: "peer_id \<Rightarrow> rtc \<Rightarrow> rtc" where
  "dc_onerror peerId s = console_out (ConsoleError (''[RTC] DataChannel error ('' @ peerId @ ''):'')) s"




text \<open>\<^verbatim>\<open>broadcast\<close>: one \<^verbatim>\<open>sendToPeer\<close> for each key of the Map, in its order.\<close>

primrec broadcast_loop ::
  "env \<Rightarrow> message \<Rightarrow> peer_id list \<Rightarrow> bool list \<Rightarrow> rtc \<Rightarrow> bool list \<times> rtc" where
  "broadcast_loop E messageObj [] results s = (results, s)"
| "broadcast_loop E messageObj (peerId # rest) results s =
     (case sendToPeer E peerId messageObj s of
        (r, s') \<Rightarrow> broadcast_loop E messageObj rest (results @ [r]) s')"

definition broadcast :: "env \<Rightarrow> message \<Rightarrow> rtc \<Rightarrow> bool list \<times> rtc" where
  "broadcast E messageObj s = broadcast_loop E messageObj (map fst (peers s)) [] s"

definition disconnectPeer :: "peer_id \<Rightarrow> rtc \<Rightarrow> rtc" where
  "disconnectPeer peerId s = handlePeerDisconnect peerId s"

text \<open>
  \<^verbatim>\<open>disconnectAll\<close>: the loop visits every key once (a Map iterator skips what was
  deleted and each call deletes only its own key), then \<^verbatim>\<open>peers.clear()\<close>.
\<close>

definition disconnectAll :: "rtc \<Rightarrow> rtc" where
  "disconnectAll s = (fold handlePeerDisconnect (map fst (peers s)) s)\<lparr>peers := []\<rparr>"

record peer_info =
  info_id :: peer_id
  info_name :: string
  info_state :: peer_state
  info_encrypted :: bool

definition getPeerList :: "rtc \<Rightarrow> peer_info list" where
  "getPeerList s =
     map (\<lambda>(pid, p). \<lparr>info_id = pid, info_name = name p, info_state = state p,
                      info_encrypted = (sharedKey p \<noteq> None)\<rparr>) (peers s)"

definition getPeerCount :: "rtc \<Rightarrow> nat" where
  "getPeerCount s = length (peers s)"

definition isPeerConnected :: "peer_id \<Rightarrow> rtc \<Rightarrow> bool" where
  "isPeerConnected peerId s =
     (case map_of (peers s) peerId of
        None \<Rightarrow> False
      | Some p \<Rightarrow> (case dataChannel p of None \<Rightarrow> False | Some dc \<Rightarrow> readyState dc = DcOpen))"

text \<open>The teardown triggers of a session: transport failure, channel closure, explicit call.\<close>

datatype trigger = IceStateChange ice_state | ChannelClose | ExplicitDisconnect

fun fire :: "peer_id \<Rightarrow> trigger \<Rightarrow> rtc \<Rightarrow> rtc" where
  "fire peerId (IceStateChange st) s = oniceconnectionstatechange peerId st s"
| "fire peerId ChannelClose s = dc_onclose peerId s"
| "fire peerId ExplicitDisconnect s = disconnectPeer peerId s"

fun tears_down :: "trigger \<Rightarrow> bool" where
  "tears_down (IceStateChange st) = (st = IceDisconnected \<or> st = IceFailed \<or> st = IceClosed)"
| "tears_down ChannelClose = True"
| "tears_down ExplicitDisconnect = True"

subsection \<open>MorphSignaling: reconnection\<close>

datatype status =
  StatusConnecting | StatusConnected | StatusDisconnected | StatusError string | StatusFailed string

text \<open>
  \<open>timers\<close> lists the delay of every \<^verbatim>\<open>setTimeout\<close> that \<^verbatim>\<open>attemptReconnect\<close> has set,
  \<open>statuses\<close> every \<^verbatim>\<open>emit('status', _)\<close>.
\<close>

record signaling =
  reconnectAttempts :: nat
  timers :: "nat list"
  statuses :: "status list"

definition MAX_RECONNECT :: nat where
  "MAX_RECONNECT = 5"

definition RECONNECT_DELAY :: nat where
  "RECONNECT_DELAY = 3000"

definition attemptReconnect :: "signaling \<Rightarrow> signaling" where
  "attemptReconnect g =
     (if reconnectAttempts g \<ge> MAX_RECONNECT
      then g\<lparr>statuses := statuses g @ [StatusFailed ''Max reconnection attempts reached'']\<rparr>
      else g\<lparr>reconnectAttempts := reconnectAttempts g + 1,
             timers := timers g @ [RECONNECT_DELAY]\<rparr>)"

definition ws_onopen :: "signaling \<Rightarrow> signaling" where
  "ws_onopen g = g\<lparr>reconnectAttempts := 0, statuses := statuses g @ [StatusConnected]\<rparr>"

definition ws_onclose :: "signaling \<Rightarrow> signaling" where
  "ws_onclose g = attemptReconnect (g\<lparr>statuses := statuses g @ [StatusDisconnected]\<rparr>)"

definition ws_onerror :: "signaling \<Rightarrow> signaling" where
  "ws_onerror g = g\<lparr>statuses := statuses g @ [StatusError ''Connection failed'']\<rparr>"

text \<open>The start of \<^verbatim>\<open>connect\<close>, which a reconnection timer calls when it fires.\<close>

definition connect :: "signaling \<Rightarrow> signaling" where
  "connect g = g\<lparr>statuses := statuses g @ [StatusConnecting]\<rparr>"

text \<open>What the socket reports while no connection attempt succeeds.\<close>

datatype ws_event = WsClose | WsError | TimerFired

fun ws_step :: "ws_event \<Rightarrow> signaling \<Rightarrow> signaling" where
  "ws_step WsClose g = ws_onclose g"
| "ws_step WsError g = ws_onerror g"
| "ws_step TimerFired g = connect g"

subsection \<open>Notions used to state the properties\<close>

text \<open>The test \<^verbatim>\<open>peer.dataChannel && peer.dataChannel.readyState === 'open'\<close>.\<close>

definition channelOpen :: "peer \<Rightarrow> bool" where
  "channelOpen p = (case dataChannel p of None \<Rightarrow> False | Some dc \<Rightarrow> readyState dc = DcOpen)"

text \<open>
  The frame \<^verbatim>\<open>sendToPeer\<close> hands to an open channel: the encryption of the serialized
  message, when \<^verbatim>\<open>encrypt\<close> resolves and \<^verbatim>\<open>dc.send\<close> does not throw.
\<close>

definition transmittable :: "env \<Rightarrow> crypto_key \<Rightarrow> message \<Rightarrow> string option" where
  "transmittable E k m =
     (case encrypt E k (JSON_stringify E m) of
        None \<Rightarrow> None
      | Some encrypted \<Rightarrow> if dc_send_ok E encrypted then Some encrypted else None)"

text \<open>What a run of sends under key \<open>k\<close> leaves on the channel of a session.\<close>

definition transmit :: "env \<Rightarrow> crypto_key \<Rightarrow> message list \<Rightarrow> channel option \<Rightarrow> channel option" where
  "transmit E k ms dco =
     (case dco of
        None \<Rightarrow> None
      | Some dc \<Rightarrow>
          if readyState dc = DcOpen
          then Some (dc\<lparr>sent := sent dc @ map Data (List.map_filter (transmittable E k) ms)\<rparr>)
          else Some dc)"

text \<open>The change one \<^verbatim>\<open>sendToPeer\<close> makes to the session it addresses, and its result.\<close>

definition send_effect :: "env \<Rightarrow> message \<Rightarrow> peer \<Rightarrow> peer" where
  "send_effect E m p =
     (case sharedKey p of
        None \<Rightarrow> p\<lparr>pendingMessages := pendingMessages p @ [m]\<rparr>
      | Some k \<Rightarrow> p\<lparr>dataChannel := transmit E k [m] (dataChannel p)\<rparr>)"

definition send_result :: "env \<Rightarrow> message \<Rightarrow> peer \<Rightarrow> bool" where
  "send_result E m p =
     (case sharedKey p of
        None \<Rightarrow> True
      | Some k \<Rightarrow> channelOpen p \<and> transmittable E k m \<noteq> None)"

text \<open>The sessions that have a shared key, and whether a send to a session transmits.\<close>

definition keyed :: "rtc \<Rightarrow> (peer_id \<times> peer) list" where
  "keyed s = filter (\<lambda>e. sharedKey (snd e) \<noteq> None) (peers s)"

definition delivers :: "env \<Rightarrow> message \<Rightarrow> peer \<Rightarrow> bool" where
  "delivers E m p = (sharedKey p \<noteq> None \<and> send_result E m p)"

text \<open>Messages waiting in the queues, and frames handed to the channels, over all sessions.\<close>

definition queued_total :: "rtc \<Rightarrow> nat" where
  "queued_total s = sum_list (map (\<lambda>e. length (pendingMessages (snd e))) (peers s))"

definition sent_count :: "peer \<Rightarrow> nat" where
  "sent_count p = (case dataChannel p of None \<Rightarrow> 0 | Some dc \<Rightarrow> length (sent dc))"

definition sent_total :: "rtc \<Rightarrow> nat" where
  "sent_total s = sum_list (map (\<lambda>e. sent_count (snd e)) (peers s))"

text \<open>A caller submitting messages to one peer, one \<^verbatim>\<open>sendToPeer\<close> after the other.\<close>

definition submitAll :: "env \<Rightarrow> peer_id \<Rightarrow> message list \<Rightarrow> rtc \<Rightarrow> rtc" where
  "submitAll E peerId ms s = fold (\<lambda>m st. snd (sendToPeer E peerId m st)) ms s"

text \<open>The browser moving the channel of a session to another \<^verbatim>\<open>readyState\<close>.\<close>

definition set_readyState :: "peer_id \<Rightarrow> ready_state \<Rightarrow> rtc \<Rightarrow> rtc" where
  "set_readyState peerId st s =
     (case map_of (peers s) peerId of
        None \<Rightarrow> s
      | Some p \<Rightarrow>
          set_peer peerId
            (p\<lparr>dataChannel := map_option (\<lambda>dc. dc\<lparr>readyState := st\<rparr>) (dataChannel p)\<rparr>) s)"

subsection \<open>A concrete environment and concrete sessions\<close>

text \<open>
  A toy provider: a key is the length of the peer's public key, the public key \<open>bad\<close>
  cannot be imported, a ciphertext is the plaintext behind a tag, the empty text does not
  parse, and the channel refuses a frame longer than 16 characters.
\<close>

definition demo_env :: env where
  "demo_env =
     \<lparr>myPublicKeyJwk = ''pkA'',
      completeKeyExchange = (\<lambda>pk. if pk = ''bad'' then None else Some (length pk)),
      encrypt = (\<lambda>k pt. Some (''enc:'' @ pt)),
      decrypt = (\<lambda>k ct. if take 4 ct = ''enc:'' then Some (drop 4 ct) else None),
      JSON_stringify = msg_text,
      JSON_parse = (\<lambda>t. if t = [] then None
                        else Some \<lparr>own_fromPeerId = None, own_fromName = None,
                                   body = \<lparr>msg_text = t, msg_time = 0, msg_type = ''chat''\<rparr>\<rparr>),
      dc_send_ok = (\<lambda>frame. length frame \<le> 16),
      createOffer = Some ''offer'',
      createAnswer = (\<lambda>_. Some ''answer''),
      setRemoteDescription_ok = (\<lambda>_. True),
      addIceCandidate_ok = (\<lambda>_. True)\<rparr>"

definition hello :: message where
  "hello = \<lparr>msg_text = ''hello'', msg_time = 1, msg_type = ''chat''\<rparr>"

definition world :: message where
  "world = \<lparr>msg_text = ''world'', msg_time = 2, msg_type = ''chat''\<rparr>"

definition essay :: message where
  "essay = \<lparr>msg_text = ''a text too long for one frame'', msg_time = 3, msg_type = ''chat''\<rparr>"

definition rtc_init :: rtc where
  "rtc_init = \<lparr>peers = [], events = [], console = [], signals = []\<rparr>"

text \<open>
  Bob's session as the initiator sees it: created, then its channel open, then the key
  exchanged over the channel, then the channel closing before any teardown handler ran.
\<close>

definition st_connecting :: rtc where
  "st_connecting = snd (connectToPeer demo_env ''bob'' ''Bob'' rtc_init)"

definition st_open :: rtc where
  "st_open = dc_onopen demo_env ''bob'' (set_readyState ''bob'' DcOpen st_connecting)"

definition st_encrypted :: rtc where
  "st_encrypted = dc_onmessage demo_env ''bob'' (Control (Some ''pkB'')) st_open"

definition st_closing :: rtc where
  "st_closing = set_readyState ''bob'' DcClosing st_encrypted"

text \<open>
  Bob's key arrives as a signal while his channel is still connecting, then the channel
  opens: the key is set and \<^verbatim>\<open>dc.onopen\<close> has put the state back to \<^verbatim>\<open>'open'\<close>.
\<close>

definition st_keyed_open :: rtc where
  "st_keyed_open =
     dc_onopen demo_env ''bob''
       (set_readyState ''bob'' DcOpen
          (snd (handleSignal demo_env ''bob'' ''Bob'' (KeyExchange (Some ''pkB'')) st_connecting)))"

text \<open>Two messages submitted to Bob while his channel is still connecting.\<close>

definition st_queued :: rtc where
  "st_queued = submitAll demo_env ''bob'' [hello, world] st_connecting"

text \<open>The same two messages submitted once the channel is open, before any key exchange.\<close>

definition st_queued_open :: rtc where
  "st_queued_open = submitAll demo_env ''bob'' [hello, world] st_open"

text \<open>
  Carol joins: in \<open>st_two\<close> beside a Bob whose channel is closing, in \<open>st_mesh\<close> beside
  an encrypted Bob, with her own channel open and her key still to come.
\<close>

definition st_two :: rtc where
  "st_two = snd (connectToPeer demo_env ''carol'' ''Carol'' st_closing)"

definition st_mesh :: rtc where
  "st_mesh =
     dc_onopen demo_env ''carol''
       (set_readyState ''carol'' DcOpen
          (snd (connectToPeer demo_env ''carol'' ''Carol'' st_encrypted)))"

definition sig_init :: signaling where
  "sig_init = \<lparr>reconnectAttempts = 0, timers = [], statuses = []\<rparr>"

text \<open>Five failed reconnections in a row: each close sets a timer, whose connection fails.\<close>

definition sig_exhausted :: signaling where
  "sig_exhausted =
     fold ws_step [WsClose, TimerFired, WsError, WsClose, TimerFired, WsError, WsClose,
                   TimerFired, WsError, WsClose, TimerFired, WsError, WsClose, TimerFired, WsError]
       sig_init"

section \<open>Properties\<close>

subsection \<open>Projections and the concrete sessions\<close>

lemma proj_console_out [simp]:
  "peers (console_out l s) = peers s" "events (console_out l s) = events s"
  "signals (console_out l s) = signals s" "console (console_out l s) = console s @ [l]"
  by (simp_all add: console_out_def)

lemma proj_emit [simp]:
  "peers (emit e s) = peers s" "events (emit e s) = events s @ [e]"
  "signals (emit e s) = signals s" "console (emit e s) = console s"
  by (simp_all add: emit_def)

lemma proj_set_peer [simp]:
  "peers (set_peer peerId p s) = AList.update peerId p (peers s)"
  "events (set_peer peerId p s) = events s"
  "signals (set_peer peerId p s) = signals s" "console (set_peer peerId p s) = console s"
  by (simp_all add: set_peer_def)

lemma map_of_delete_same [simp]: "map_of (AList.delete k al) k = None"
  by (simp add: AList.delete_conv')

lemma st_connecting_eq:
  "st_connecting =
     \<lparr>peers = [(''bob'',
        \<lparr>connection = \<lparr>remoteDescription = None, localDescription = Some ''offer'',
                        remoteCandidates = []\<rparr>,
         dataChannel = Some \<lparr>readyState = DcConnecting, sent = []\<rparr>,
         sharedKey = None, name = ''Bob'', state = StConnecting,
         isInitiator = True, pendingMessages = []\<rparr>)],
      events = [],
      console = [ConsoleLog ''[RTC] Initiating connection to Bob (bob)''],
      signals = [(''bob'', Offer ''offer'')]\<rparr>"
  by (simp add: st_connecting_def connectToPeer_def rtc_init_def demo_env_def set_peer_def
      console_out_def sendSignal_def new_connection_def)

lemma st_open_eq:
  "st_open =
     \<lparr>peers = [(''bob'',
        \<lparr>connection = \<lparr>remoteDescription = None, localDescription = Some ''offer'',
                        remoteCandidates = []\<rparr>,
         dataChannel = Some \<lparr>readyState = DcOpen, sent = [Control (Some ''pkA'')]\<rparr>,
         sharedKey = None, name = ''Bob'', state = StOpen,
         isInitiator = True, pendingMessages = []\<rparr>)],
      events = [PeerConnected ''bob'' (Some ''Bob'')],
      console = [ConsoleLog ''[RTC] Initiating connection to Bob (bob)'',
                 ConsoleLog ''[RTC] DataChannel OPEN with bob''],
      signals = [(''bob'', Offer ''offer'')]\<rparr>"
  by (simp add: st_open_def st_connecting_eq dc_onopen_def set_readyState_def demo_env_def
      set_peer_def console_out_def emit_def)

lemma st_encrypted_eq:
  "st_encrypted =
     \<lparr>peers = [(''bob'',
        \<lparr>connection = \<lparr>remoteDescription = None, localDescription = Some ''offer'',
                        remoteCandidates = []\<rparr>,
         dataChannel = Some \<lparr>readyState = DcOpen, sent = [Control (Some ''pkA'')]\<rparr>,
         sharedKey = Some 3, name = ''Bob'', state = StEncrypted,
         isInitiator = True, pendingMessages = []\<rparr>)],
      events = [PeerConnected ''bob'' (Some ''Bob''), PeerEncrypted ''bob'' ''Bob''],
      console = [ConsoleLog ''[RTC] Initiating connection to Bob (bob)'',
                 ConsoleLog ''[RTC] DataChannel OPEN with bob'',
                 ConsoleLog ''[RTC] Encrypted channel with Bob''],
      signals = [(''bob'', Offer ''offer'')]\<rparr>"
  by (simp add: st_encrypted_def st_open_eq dc_onmessage_def handleSignal_def clearPending_def
      demo_env_def set_peer_def console_out_def emit_def)

lemma st_closing_eq:
  "st_closing =
     \<lparr>peers = [(''bob'',
        \<lparr>connection = \<lparr>remoteDescription = None, localDescription = Some ''offer'',
                        remoteCandidates = []\<rparr>,
         dataChannel = Some \<lparr>readyState = DcClosing, sent = [Control (Some ''pkA'')]\<rparr>,
         sharedKey = Some 3, name = ''Bob'', state = StEncrypted,
         isInitiator = True, pendingMessages = []\<rparr>)],
      events = [PeerConnected ''bob'' (Some ''Bob''), PeerEncrypted ''bob'' ''Bob''],
      console = [ConsoleLog ''[RTC] Initiating connection to Bob (bob)'',
                 ConsoleLog ''[RTC] DataChannel OPEN with bob'',
                 ConsoleLog ''[RTC] Encrypted channel with Bob''],
      signals = [(''bob'', Offer ''offer'')]\<rparr>"
  by (simp add: st_closing_def st_encrypted_eq set_readyState_def set_peer_def)

lemma st_connecting_bob:
  "map_of (peers st_connecting) ''bob'' = Some (snd (hd (peers st_connecting)))"
  "sharedKey (snd (hd (peers st_connecting))) = None"
  "state (snd (hd (peers st_connecting))) = StConnecting"
  "pendingMessages (snd (hd (peers st_connecting))) = []"
  "dataChannel (snd (hd (peers st_connecting))) = Some \<lparr>readyState = DcConnecting, sent = []\<rparr>"
  by (simp_all add: st_connecting_eq)

lemma st_open_bob:
  "map_of (peers st_open) ''bob'' = Some (snd (hd (peers st_open)))"
  "sharedKey (snd (hd (peers st_open))) = None"
  "pendingMessages (snd (hd (peers st_open))) = []"
  "dataChannel (snd (hd (peers st_open))) =
     Some \<lparr>readyState = DcOpen, sent = [Control (Some ''pkA'')]\<rparr>"
  by (simp_all add: st_open_eq)

lemma st_encrypted_bob:
  "map_of (peers st_encrypted) ''bob'' = Some (snd (hd (peers st_encrypted)))"
  "sharedKey (snd (hd (peers st_encrypted))) = Some 3"
  "name (snd (hd (peers st_encrypted))) = ''Bob''"
  "pendingMessages (snd (hd (peers st_encrypted))) = []"
  by (simp_all add: st_encrypted_eq)

lemma st_closing_bob:
  "map_of (peers st_closing) ''bob'' = Some (snd (hd (peers st_closing)))"
  "sharedKey (snd (hd (peers st_closing))) = Some 3"
  "\<not> channelOpen (snd (hd (peers st_closing)))"
  by (simp_all add: st_closing_eq channelOpen_def)

lemma st_keyed_open_peers:
  "peers st_keyed_open =
     [(''bob'',
        \<lparr>connection = \<lparr>remoteDescription = None, localDescription = Some ''offer'',
                        remoteCandidates = []\<rparr>,
         dataChannel = Some \<lparr>readyState = DcOpen, sent = [Control (Some ''pkA'')]\<rparr>,
         sharedKey = Some 3, name = ''Bob'', state = StOpen,
         isInitiator = True, pendingMessages = []\<rparr>)]"
  by (simp add: st_keyed_open_def st_connecting_eq handleSignal_def clearPending_def
      dc_onopen_def set_readyState_def demo_env_def set_peer_def console_out_def emit_def)

lemma st_two_peers:
  "peers st_two =
     [(''bob'',
        \<lparr>connection = \<lparr>remoteDescription = None, localDescription = Some ''offer'',
                        remoteCandidates = []\<rparr>,
         dataChannel = Some \<lparr>readyState = DcClosing, sent = [Control (Some ''pkA'')]\<rparr>,
         sharedKey = Some 3, name = ''Bob'', state = StEncrypted,
         isInitiator = True, pendingMessages = []\<rparr>),
      (''carol'',
        \<lparr>connection = \<lparr>remoteDescription = None, localDescription = Some ''offer'',
                        remoteCandidates = []\<rparr>,
         dataChannel = Some \<lparr>readyState = DcConnecting, sent = []\<rparr>,
         sharedKey = None, name = ''Carol'', state = StConnecting,
         isInitiator = True, pendingMessages = []\<rparr>)]"
  by (simp add: st_two_def st_closing_eq connectToPeer_def demo_env_def set_peer_def
      console_out_def sendSignal_def new_connection_def)

lemma st_mesh_peers:
  "peers st_mesh =
     [(''bob'',
        \<lparr>connection = \<lparr>remoteDescription = None, localDescription = Some ''offer'',
                        remoteCandidates = []\<rparr>,
         dataChannel = Some \<lparr>readyState = DcOpen, sent = [Control (Some ''pkA'')]\<rparr>,
         sharedKey = Some 3, name = ''Bob'', state = StEncrypted,
         isInitiator = True, pendingMessages = []\<rparr>),
      (''carol'',
        \<lparr>connection = \<lparr>remoteDescription = None, localDescription = Some ''offer'',
                        remoteCandidates = []\<rparr>,
         dataChannel = Some \<lparr>readyState = DcOpen, sent = [Control (Some ''pkA'')]\<rparr>,
         sharedKey = None, name = ''Carol'', state = StOpen,
         isInitiator = True, pendingMessages = []\<rparr>)]"
  by (simp add: st_mesh_def st_encrypted_eq connectToPeer_def dc_onopen_def set_readyState_def
      demo_env_def set_peer_def console_out_def sendSignal_def emit_def new_connection_def)

lemma sig_exhausted_eq:
  "sig_exhausted =
     \<lparr>reconnectAttempts = 5, timers = [3000, 3000, 3000, 3000, 3000],
      statuses = [StatusDisconnected, StatusConnecting, StatusError ''Connection failed'',
                  StatusDisconnected, StatusConnecting, StatusError ''Connection failed'',
                  StatusDisconnected, StatusConnecting, StatusError ''Connection failed'',
                  StatusDisconnected, StatusConnecting, StatusError ''Connection failed'',
                  StatusDisconnected, StatusConnecting, StatusError ''Connection failed'']\<rparr>"
  by (simp add: sig_exhausted_def sig_init_def ws_onclose_def ws_onerror_def connect_def
      attemptReconnect_def MAX_RECONNECT_def RECONNECT_DELAY_def)

subsection \<open>One send, a run of sends, the key exchange\<close>

lemma sendToPeer_local:
  assumes "map_of (peers s) peerId = Some p"
  shows "fst (sendToPeer E peerId m s) = send_result E m p"
    and "peers (snd (sendToPeer E peerId m s)) = AList.update peerId (send_effect E m p) (peers s)"
    and "events (snd (sendToPeer E peerId m s)) = events s"
    and "signals (snd (sendToPeer E peerId m s)) = signals s"
  using assms
  by (auto simp: sendToPeer_def send_result_def send_effect_def transmit_def transmittable_def
      channelOpen_def List.map_filter_simps AList.update_triv split: option.splits)

lemma transmit_Nil [simp]: "transmit E k [] dco = dco"
  by (simp add: transmit_def List.map_filter_simps split: option.splits)

lemma transmit_Cons:
  "transmit E k ms (transmit E k [m] dco) = transmit E k (m # ms) dco"
  by (auto simp: transmit_def List.map_filter_simps split: option.splits)

lemma flushPending_keyed:
  assumes "map_of (peers s) peerId = Some p" and "sharedKey p = Some k"
  shows "peers (flushPending E peerId ms s) =
           AList.update peerId (p\<lparr>dataChannel := transmit E k ms (dataChannel p)\<rparr>) (peers s)
         \<and> events (flushPending E peerId ms s) = events s
         \<and> signals (flushPending E peerId ms s) = signals s"
  using assms
proof (induction ms arbitrary: s p)
  case Nil
  then show ?case by (simp add: AList.update_triv)
next
  case (Cons m ms)
  let ?s1 = "snd (sendToPeer E peerId m s)"
  let ?p1 = "p\<lparr>dataChannel := transmit E k [m] (dataChannel p)\<rparr>"
  have eff: "send_effect E m p = ?p1"
    using Cons.prems by (simp add: send_effect_def)
  have p1: "peers ?s1 = AList.update peerId ?p1 (peers s)"
    using sendToPeer_local(2) [OF Cons.prems(1)] eff by simp
  have look: "map_of (peers ?s1) peerId = Some ?p1"
    by (simp add: p1 AList.update_conv')
  have key: "sharedKey ?p1 = Some k"
    using Cons.prems by simp
  from Cons.IH [OF look key]
  show ?case
    using sendToPeer_local(3,4) [OF Cons.prems(1)]
    by (simp add: p1 transmit_Cons)
qed


lemma submitAll_unkeyed:
  assumes "map_of (peers s) peerId = Some p" and "sharedKey p = None"
  shows "peers (submitAll E peerId ms s) =
           AList.update peerId (p\<lparr>pendingMessages := pendingMessages p @ ms\<rparr>) (peers s)
         \<and> events (submitAll E peerId ms s) = events s"
  using assms
proof (induction ms arbitrary: s p)
  case Nil
  then show ?case by (simp add: submitAll_def AList.update_triv)
next
  case (Cons m ms)
  let ?s1 = "snd (sendToPeer E peerId m s)"
  let ?p1 = "p\<lparr>pendingMessages := pendingMessages p @ [m]\<rparr>"
  have eff: "send_effect E m p = ?p1"
    using Cons.prems by (simp add: send_effect_def)
  have p1: "peers ?s1 = AList.update peerId ?p1 (peers s)"
    using sendToPeer_local(2) [OF Cons.prems(1)] eff by simp
  have look: "map_of (peers ?s1) peerId = Some ?p1"
    by (simp add: p1 AList.update_conv')
  have key: "sharedKey ?p1 = None"
    using Cons.prems by simp
  have unfold: "submitAll E peerId (m # ms) s = submitAll E peerId ms ?s1"
    by (simp add: submitAll_def)
  from Cons.IH [OF look key]
  show ?case
    unfolding unfold using sendToPeer_local(3) [OF Cons.prems(1)]
    by (simp add: p1)
qed

lemma map_filter_all_Some:
  "map f xs = map Some ys \<Longrightarrow> List.map_filter f xs = ys"
  by (induction xs arbitrary: ys) (auto simp: List.map_filter_simps)

lemma clearPending_present:
  "map_of (peers s) peerId = Some p \<Longrightarrow>
   clearPending peerId s = set_peer peerId (p\<lparr>pendingMessages := []\<rparr>) s"
  by (simp add: clearPending_def)

lemma keyExchange_success:
  assumes "map_of (peers s) peerId = Some p"
    and "completeKeyExchange E publicKey = Some k"
  shows "fst (handleSignal E peerId peerName (KeyExchange (Some publicKey)) s) = None"
    and "peers (snd (handleSignal E peerId peerName (KeyExchange (Some publicKey)) s)) =
           AList.update peerId
             (p\<lparr>sharedKey := Some k, state := StEncrypted,
                dataChannel := transmit E k (pendingMessages p) (dataChannel p),
                pendingMessages := []\<rparr>) (peers s)"
    and "events (snd (handleSignal E peerId peerName (KeyExchange (Some publicKey)) s)) =
           events s @ [PeerEncrypted peerId (name p)]"
proof -
  let ?p1 = "p\<lparr>sharedKey := Some k, state := StEncrypted\<rparr>"
  let ?s3 = "emit (PeerEncrypted peerId (name p))
               (console_out (ConsoleLog (''[RTC] Encrypted channel with '' @ name p))
                  (set_peer peerId ?p1 s))"
  let ?s4 = "flushPending E peerId (pendingMessages p) ?s3"
  have res: "handleSignal E peerId peerName (KeyExchange (Some publicKey)) s =
               (None, clearPending peerId ?s4)"
    using assms by (simp add: handleSignal_def Let_def)
  have look3: "map_of (peers ?s3) peerId = Some ?p1"
    by (simp add: AList.update_conv')
  have key3: "sharedKey ?p1 = Some k" by simp
  note fl = flushPending_keyed [OF look3 key3, of E "pendingMessages p"]
  let ?p4 = "?p1\<lparr>dataChannel := transmit E k (pendingMessages p) (dataChannel ?p1)\<rparr>"
  have p4: "peers ?s4 = AList.update peerId ?p4 (peers s)"
    using fl by simp
  have look4: "map_of (peers ?s4) peerId = Some ?p4"
    by (subst p4) (simp add: AList.update_conv')
  show "fst (handleSignal E peerId peerName (KeyExchange (Some publicKey)) s) = None"
    by (simp add: res)
  show "peers (snd (handleSignal E peerId peerName (KeyExchange (Some publicKey)) s)) =
           AList.update peerId
             (p\<lparr>sharedKey := Some k, state := StEncrypted,
                dataChannel := transmit E k (pendingMessages p) (dataChannel p),
                pendingMessages := []\<rparr>) (peers s)"
    unfolding res snd_conv clearPending_present [OF look4] proj_set_peer p4 by simp
  show "events (snd (handleSignal E peerId peerName (KeyExchange (Some publicKey)) s)) =
           events s @ [PeerEncrypted peerId (name p)]"
    unfolding res snd_conv clearPending_present [OF look4] proj_set_peer using fl by simp
qed

lemma dc_onmessage_control:
  assumes "map_of (peers s) peerId = Some p"
    and "fst (handleSignal E peerId (name p) (KeyExchange pk) s) = None"
  shows "dc_onmessage E peerId (Control pk) s =
           snd (handleSignal E peerId (name p) (KeyExchange pk) s)"
  using assms
  by (cases "handleSignal E peerId (name p) (KeyExchange pk) s") (simp add: dc_onmessage_def)

subsection \<open>Broadcast\<close>

lemma update_mid:
  "k \<notin> fst ` set pre \<Longrightarrow> AList.update k v (pre @ (k, p) # rest) = pre @ (k, v) # rest"
  by (induction pre) auto

lemma map_of_mid:
  "k \<notin> fst ` set pre \<Longrightarrow> map_of (pre @ (k, p) # rest) k = Some p"
  by (induction pre) auto

lemma broadcast_loop_char:
  assumes "peers s = pre @ rest" and "distinct (map fst (pre @ rest))"
  shows "fst (broadcast_loop E m (map fst rest) acc s) =
           acc @ map (\<lambda>(pid, p). send_result E m p) rest
       \<and> peers (snd (broadcast_loop E m (map fst rest) acc s)) =
           pre @ map (\<lambda>(pid, p). (pid, send_effect E m p)) rest
       \<and> events (snd (broadcast_loop E m (map fst rest) acc s)) = events s"
  using assms
proof (induction rest arbitrary: pre acc s)
  case Nil
  then show ?case by simp
next
  case (Cons kp rest)
  obtain k p where kp: "kp = (k, p)" by (cases kp)
  have notin: "k \<notin> fst ` set pre"
    using Cons.prems(2) by (auto simp: kp)
  have look: "map_of (peers s) k = Some p"
    using map_of_mid [OF notin] by (simp add: Cons.prems(1) kp)
  obtain r s1 where step: "sendToPeer E k m s = (r, s1)" by (cases "sendToPeer E k m s")
  have r: "r = send_result E m p"
    using sendToPeer_local(1) [OF look, of E m] by (simp add: step)
  have p1: "peers s1 = (pre @ [(k, send_effect E m p)]) @ rest"
    using sendToPeer_local(2) [OF look, of E m] update_mid [OF notin]
    by (simp add: step Cons.prems(1) kp)
  have ev: "events s1 = events s"
    using sendToPeer_local(3) [OF look, of E m] by (simp add: step)
  have dist: "distinct (map fst ((pre @ [(k, send_effect E m p)]) @ rest))"
    using Cons.prems(2) by (simp add: kp)
  have unfold: "broadcast_loop E m (map fst (kp # rest)) acc s =
                  broadcast_loop E m (map fst rest) (acc @ [r]) s1"
    by (simp add: kp step)
  from Cons.IH [OF p1 dist, of "acc @ [r]"]
  show ?case
    unfolding unfold by (simp add: kp r ev)
qed

lemma broadcast_char:
  assumes "distinct (map fst (peers s))"
  shows "fst (broadcast E m s) = map (\<lambda>(pid, p). send_result E m p) (peers s)"
    and "peers (snd (broadcast E m s)) = map (\<lambda>(pid, p). (pid, send_effect E m p)) (peers s)"
    and "events (snd (broadcast E m s)) = events s"
  using broadcast_loop_char [of s "[]" "peers s" E m "[]"] assms
  by (simp_all add: broadcast_def)

lemma pending_send_effect:
  "length (pendingMessages (send_effect E m p)) =
     length (pendingMessages p) + (if sharedKey p = None then 1 else 0)"
  by (simp add: send_effect_def split: option.splits)

lemma sent_count_send_effect:
  "sent_count (send_effect E m p) = sent_count p + (if delivers E m p then 1 else 0)"
  by (auto simp: send_effect_def sent_count_def delivers_def send_result_def channelOpen_def
      transmit_def List.map_filter_simps split: option.splits)

lemma sum_list_indicator:
  "sum_list (map (\<lambda>x. f x + (if P x then 1 else 0)) xs) =
     sum_list (map f xs) + length (filter P xs)"
  by (induction xs) simp_all

lemma length_unkeyed:
  "length (filter (\<lambda>e. sharedKey (snd e) = None) al) =
     length al - length (filter (\<lambda>e. sharedKey (snd e) \<noteq> None) al)"
  by (induction al) (auto simp: Suc_diff_le)

lemma queued_total_broadcast:
  assumes "distinct (map fst (peers s))"
  shows "queued_total (snd (broadcast E m s)) =
           queued_total s + (length (peers s) - length (keyed s))"
proof -
  have "queued_total (snd (broadcast E m s)) =
          sum_list (map (\<lambda>e. length (pendingMessages (snd e)) +
                              (if sharedKey (snd e) = None then 1 else 0)) (peers s))"
    by (simp add: queued_total_def broadcast_char(2) [OF assms] comp_def case_prod_beta
        pending_send_effect)
  also have "\<dots> = queued_total s + length (filter (\<lambda>e. sharedKey (snd e) = None) (peers s))"
    unfolding sum_list_indicator by (simp add: queued_total_def)
  finally show ?thesis
    using length_unkeyed [of "peers s"] by (simp add: keyed_def)
qed

lemma sent_total_broadcast:
  assumes "distinct (map fst (peers s))"
  shows "sent_total (snd (broadcast E m s)) =
           sent_total s + length (filter (\<lambda>e. delivers E m (snd e)) (peers s))"
proof -
  have "sent_total (snd (broadcast E m s)) =
          sum_list (map (\<lambda>e. sent_count (snd e) + (if delivers E m (snd e) then 1 else 0)) (peers s))"
    by (simp add: sent_total_def broadcast_char(2) [OF assms] comp_def case_prod_beta
        sent_count_send_effect)
  also have "\<dots> = sent_total s + length (filter (\<lambda>e. delivers E m (snd e)) (peers s))"
    unfolding sum_list_indicator by (simp add: sent_total_def)
  finally show ?thesis .
qed

lemma delivers_filter:
  "filter (\<lambda>e. delivers E m (snd e)) (peers s) = filter (\<lambda>e. send_result E m (snd e)) (keyed s)"
  by (auto simp: keyed_def delivers_def intro: filter_cong)

lemma delivers_le_keyed:
  "length (filter (\<lambda>e. delivers E m (snd e)) (peers s)) \<le> length (keyed s)"
  by (simp add: delivers_filter)

lemma delivers_all_keyed:
  "list_all (\<lambda>e. send_result E m (snd e)) (keyed s) \<Longrightarrow>
   length (filter (\<lambda>e. delivers E m (snd e)) (peers s)) = length (keyed s)"
  by (simp add: delivers_filter list_all_iff filter_id_conv)

lemma broadcast_queued_lookup:
  assumes "distinct (map fst (peers s))"
    and "map_of (peers s) peerId = Some p" and "sharedKey p = None"
  shows "map_of (peers (snd (broadcast E m s))) peerId =
           Some (p\<lparr>pendingMessages := pendingMessages p @ [m]\<rparr>)"
  using assms(2,3)
  by (simp add: broadcast_char(2) [OF assms(1)] map_of_map send_effect_def)

subsection \<open>Teardown\<close>

lemma handlePeerDisconnect_absent:
  "map_of (peers s) peerId = None \<Longrightarrow> handlePeerDisconnect peerId s = s"
  by (simp add: handlePeerDisconnect_def)

lemma handlePeerDisconnect_removes [simp]:
  "map_of (peers (handlePeerDisconnect peerId s)) peerId = None"
  by (cases "map_of (peers s) peerId") (simp_all add: handlePeerDisconnect_def)

lemma handlePeerDisconnect_idem:
  "handlePeerDisconnect peerId (handlePeerDisconnect peerId s) = handlePeerDisconnect peerId s"
  by (rule handlePeerDisconnect_absent) simp

lemma fold_handlePeerDisconnect_events:
  assumes "peers s = al" and "distinct (map fst al)"
  shows "events (fold handlePeerDisconnect (map fst al) s) =
           events s @ map (\<lambda>e. PeerDisconnected (fst e) (name (snd e))) al"
  using assms
proof (induction al arbitrary: s)
  case Nil
  then show ?case by simp
next
  case (Cons kp al)
  obtain k p where kp: "kp = (k, p)" by (cases kp)
  have notin: "k \<notin> fst ` set al"
    using Cons.prems(2) by (auto simp: kp)
  let ?s1 = "handlePeerDisconnect k s"
  have s1: "?s1 = emit (PeerDisconnected k (name p)) (s\<lparr>peers := al\<rparr>)"
    using notin by (simp add: handlePeerDisconnect_def Cons.prems(1) kp)
  have p1: "peers ?s1 = al" by (simp add: s1)
  have d1: "distinct (map fst al)" using Cons.prems(2) by simp
  from Cons.IH [OF p1 d1]
  show ?case by (simp add: kp s1)
qed

lemma fire_absent:
  "map_of (peers s) peerId = None \<Longrightarrow>
   peers (fire peerId t s) = peers s \<and> events (fire peerId t s) = events s"
  by (cases t)
    (simp_all add: oniceconnectionstatechange_def dc_onclose_def disconnectPeer_def
      handlePeerDisconnect_def Let_def)

lemma fold_fire_absent:
  "map_of (peers s) peerId = None \<Longrightarrow>
   peers (fold (fire peerId) ts s) = peers s \<and> events (fold (fire peerId) ts s) = events s"
proof (induction ts arbitrary: s)
  case Nil
  then show ?case by simp
next
  case (Cons t ts)
  have "map_of (peers (fire peerId t s)) peerId = None"
    using Cons.prems fire_absent [of s peerId t] by simp
  from Cons.IH [OF this] show ?case
    using Cons.prems fire_absent [of s peerId t] by simp
qed

lemma fire_present:
  "map_of (peers s) peerId = Some p \<Longrightarrow> tears_down t \<Longrightarrow>
   peers (fire peerId t s) = AList.delete peerId (peers s) \<and>
   events (fire peerId t s) = events s @ [PeerDisconnected peerId (name p)]"
  by (cases t)
    (auto simp: oniceconnectionstatechange_def dc_onclose_def disconnectPeer_def
      handlePeerDisconnect_def Let_def)

subsection \<open>Reconnection\<close>

lemma ws_step_timers:
  "timers (ws_step e g) =
     timers g @ (if e = WsClose \<and> reconnectAttempts g < MAX_RECONNECT then [RECONNECT_DELAY] else [])"
  by (cases e) (simp_all add: ws_onclose_def ws_onerror_def connect_def attemptReconnect_def)

lemma ws_step_attempts:
  "reconnectAttempts (ws_step e g) =
     (if e = WsClose \<and> reconnectAttempts g < MAX_RECONNECT then reconnectAttempts g + 1
      else reconnectAttempts g)"
  by (cases e) (simp_all add: ws_onclose_def ws_onerror_def connect_def attemptReconnect_def)

lemma fold_ws_step_timers:
  "timers (fold ws_step evs g) =
     timers g @
       replicate (min (count_list evs WsClose) (MAX_RECONNECT - reconnectAttempts g)) RECONNECT_DELAY"
proof (induction evs arbitrary: g)
  case Nil
  then show ?case by simp
next
  case (Cons e evs)
  have unfold: "fold ws_step (e # evs) g = fold ws_step evs (ws_step e g)" by simp
  show ?case
  proof (cases "e = WsClose \<and> reconnectAttempts g < MAX_RECONNECT")
    case True
    have t: "timers (ws_step e g) = timers g @ [RECONNECT_DELAY]"
      using True ws_step_timers [of e g] by simp
    have a: "reconnectAttempts (ws_step e g) = reconnectAttempts g + 1"
      using True ws_step_attempts [of e g] by simp
    have m: "min (count_list (e # evs) WsClose) (MAX_RECONNECT - reconnectAttempts g) =
               Suc (min (count_list evs WsClose) (MAX_RECONNECT - (reconnectAttempts g + 1)))"
      using True by auto
    show ?thesis
      unfolding unfold Cons.IH t a m by simp
  next
    case False
    have t: "timers (ws_step e g) = timers g"
      using False ws_step_timers [of e g] by auto
    have a: "reconnectAttempts (ws_step e g) = reconnectAttempts g"
      using False ws_step_attempts [of e g] by auto
    have m: "min (count_list (e # evs) WsClose) (MAX_RECONNECT - reconnectAttempts g) =
               min (count_list evs WsClose) (MAX_RECONNECT - reconnectAttempts g)"
      using False by auto
    show ?thesis
      unfolding unfold Cons.IH t a m by simp
  qed
qed

section \<open>The claims\<close>

text \<open>
  C1, as the code has it. \<^verbatim>\<open>handleSignal\<close> does not look at \<^verbatim>\<open>sharedKey\<close> before it
  handles a key-exchange frame. For a session whose key is already set, a frame with a public
  key that the provider accepts is handled like the first one: no error is raised, the key
  derived from the frame replaces the stored one, the state is set to \<^verbatim>\<open>'encrypted'\<close>,
  what is in the queue is sent as far as the channel takes it and the queue is emptied, and
  \<^verbatim>\<open>peer-encrypted\<close> is emitted again. A frame whose key the provider rejects is caught
  and logged and changes nothing else; a frame without a public key is ignored.
\<close>

theorem C1_key_exchange_is_repeated_not_ignored:
  assumes "map_of (peers s) peerId = Some p"
    and "sharedKey p = Some k0"
  shows "(completeKeyExchange E publicKey = Some k \<longrightarrow>
            fst (handleSignal E peerId peerName (KeyExchange (Some publicKey)) s) = None \<and>
            map_of (peers (snd (handleSignal E peerId peerName (KeyExchange (Some publicKey)) s)))
              peerId =
              Some (p\<lparr>sharedKey := Some k, state := StEncrypted,
                      dataChannel := transmit E k (pendingMessages p) (dataChannel p),
                      pendingMessages := []\<rparr>) \<and>
            map_option sharedKey
              (map_of (peers (snd (handleSignal E peerId peerName (KeyExchange (Some publicKey)) s)))
                 peerId) = Some (Some k) \<and>
            map_option state
              (map_of (peers (snd (handleSignal E peerId peerName (KeyExchange (Some publicKey)) s)))
                 peerId) = Some StEncrypted \<and>
            events (snd (handleSignal E peerId peerName (KeyExchange (Some publicKey)) s)) =
              events s @ [PeerEncrypted peerId (name p)])
       \<and> (completeKeyExchange E publicKey = None \<longrightarrow>
            handleSignal E peerId peerName (KeyExchange (Some publicKey)) s =
              (None, console_out (ConsoleError ''[RTC] Key exchange failed:'') s))
       \<and> handleSignal E peerId peerName (KeyExchange None) s = (None, s)"
proof (intro conjI impI)
  assume d: "completeKeyExchange E publicKey = Some k"
  note ke = keyExchange_success [OF assms(1) d, of peerName]
  show "fst (handleSignal E peerId peerName (KeyExchange (Some publicKey)) s) = None"
    by (rule ke(1))
  show "map_of (peers (snd (handleSignal E peerId peerName (KeyExchange (Some publicKey)) s)))
          peerId =
          Some (p\<lparr>sharedKey := Some k, state := StEncrypted,
                  dataChannel := transmit E k (pendingMessages p) (dataChannel p),
                  pendingMessages := []\<rparr>)"
    by (simp add: ke(2) AList.update_conv')
  show "map_option sharedKey
          (map_of (peers (snd (handleSignal E peerId peerName (KeyExchange (Some publicKey)) s)))
             peerId) = Some (Some k)"
    by (simp add: ke(2) AList.update_conv')
  show "map_option state
          (map_of (peers (snd (handleSignal E peerId peerName (KeyExchange (Some publicKey)) s)))
             peerId) = Some StEncrypted"
    by (simp add: ke(2) AList.update_conv')
  show "events (snd (handleSignal E peerId peerName (KeyExchange (Some publicKey)) s)) =
          events s @ [PeerEncrypted peerId (name p)]"
    by (rule ke(3))
next
  assume "completeKeyExchange E publicKey = None"
  then show "handleSignal E peerId peerName (KeyExchange (Some publicKey)) s =
               (None, console_out (ConsoleError ''[RTC] Key exchange failed:'') s)"
    using assms(1) by (simp add: handleSignal_def)
next
  show "handleSignal E peerId peerName (KeyExchange None) s = (None, s)"
    using assms(1) by (simp add: handleSignal_def)
qed

text \<open>
  Bob's session became encrypted by the control frame with \<open>pkB\<close>. The same frame once
  more emits a second \<^verbatim>\<open>peer-encrypted\<close> event, and a control frame with another
  public key replaces the stored key 3 by 5.
\<close>

theorem C1_counterexample:
  "st_encrypted = dc_onmessage demo_env ''bob'' (Control (Some ''pkB'')) st_open
   \<and> events (dc_onmessage demo_env ''bob'' (Control (Some ''pkB'')) st_encrypted) =
       events st_encrypted @ [PeerEncrypted ''bob'' ''Bob'']
   \<and> map_option sharedKey (map_of (peers st_encrypted) ''bob'') = Some (Some 3)
   \<and> map_option sharedKey
       (map_of (peers (dc_onmessage demo_env ''bob'' (Control (Some ''pkEve'')) st_encrypted)) ''bob'')
       = Some (Some 5)"
proof -
  have d1: "completeKeyExchange demo_env ''pkB'' = Some 3" by (simp add: demo_env_def)
  have d2: "completeKeyExchange demo_env ''pkEve'' = Some 5" by (simp add: demo_env_def)
  note k1 = keyExchange_success [OF st_encrypted_bob(1) d1, of "''Bob''"]
  note k2 = keyExchange_success [OF st_encrypted_bob(1) d2, of "''Bob''"]
  have r1: "dc_onmessage demo_env ''bob'' (Control (Some ''pkB'')) st_encrypted =
              snd (handleSignal demo_env ''bob'' ''Bob'' (KeyExchange (Some ''pkB'')) st_encrypted)"
    using dc_onmessage_control [OF st_encrypted_bob(1), of demo_env "Some ''pkB''"] k1(1)
    by (simp add: st_encrypted_bob)
  have r2: "dc_onmessage demo_env ''bob'' (Control (Some ''pkEve'')) st_encrypted =
              snd (handleSignal demo_env ''bob'' ''Bob'' (KeyExchange (Some ''pkEve'')) st_encrypted)"
    using dc_onmessage_control [OF st_encrypted_bob(1), of demo_env "Some ''pkEve''"] k2(1)
    by (simp add: st_encrypted_bob)
  show ?thesis
    unfolding r1 r2 k1(3) k2(2) st_encrypted_bob
    by (simp add: st_encrypted_def [symmetric] AList.update_conv' st_encrypted_bob)
qed

text \<open>
  On the table where Bob's key came first and his channel opened afterwards, the session is
  in state \<^verbatim>\<open>'open'\<close> with the key 3; a further key-exchange frame puts the key 5 and
  the state \<^verbatim>\<open>'encrypted'\<close>.
\<close>

theorem C1_witness:
  "map_option (\<lambda>p. (sharedKey p, state p)) (map_of (peers st_keyed_open) ''bob'') =
     Some (Some 3, StOpen)
   \<and> fst (handleSignal demo_env ''bob'' ''Bob'' (KeyExchange (Some ''pkEve'')) st_keyed_open) = None
   \<and> map_of (peers (snd (handleSignal demo_env ''bob'' ''Bob'' (KeyExchange (Some ''pkEve''))
                           st_keyed_open))) ''bob'' =
       Some \<lparr>connection = \<lparr>remoteDescription = None, localDescription = Some ''offer'',
                           remoteCandidates = []\<rparr>,
             dataChannel = Some \<lparr>readyState = DcOpen, sent = [Control (Some ''pkA'')]\<rparr>,
             sharedKey = Some 5, name = ''Bob'', state = StEncrypted,
             isInitiator = True, pendingMessages = []\<rparr>
   \<and> events (snd (handleSignal demo_env ''bob'' ''Bob'' (KeyExchange (Some ''pkEve''))
                     st_keyed_open)) =
       events st_keyed_open @ [PeerEncrypted ''bob'' ''Bob'']
   \<and> handleSignal demo_env ''bob'' ''Bob'' (KeyExchange (Some ''bad'')) st_keyed_open =
       (None, console_out (ConsoleError ''[RTC] Key exchange failed:'') st_keyed_open)"
proof -
  let ?p = "snd (hd (peers st_keyed_open))"
  have a: "map_of (peers st_keyed_open) ''bob'' = Some ?p" by (simp add: st_keyed_open_peers)
  have b: "sharedKey ?p = Some 3" by (simp add: st_keyed_open_peers)
  have n: "name ?p = ''Bob''" by (simp add: st_keyed_open_peers)
  have before: "map_option (\<lambda>p. (sharedKey p, state p)) (map_of (peers st_keyed_open) ''bob'') =
                  Some (Some 3, StOpen)"
    by (simp add: st_keyed_open_peers)
  have entry: "?p\<lparr>sharedKey := Some 5, state := StEncrypted,
                  dataChannel := transmit demo_env 5 (pendingMessages ?p) (dataChannel ?p),
                  pendingMessages := []\<rparr> =
               \<lparr>connection = \<lparr>remoteDescription = None, localDescription = Some ''offer'',
                                remoteCandidates = []\<rparr>,
                dataChannel = Some \<lparr>readyState = DcOpen, sent = [Control (Some ''pkA'')]\<rparr>,
                sharedKey = Some 5, name = ''Bob'', state = StEncrypted,
                isInitiator = True, pendingMessages = []\<rparr>"
    by (simp add: st_keyed_open_peers)
  have d2: "completeKeyExchange demo_env ''pkEve'' = Some 5" by (simp add: demo_env_def)
  have d0: "completeKeyExchange demo_env ''bad'' = None" by (simp add: demo_env_def)
  show ?thesis
    using C1_key_exchange_is_repeated_not_ignored
            [OF a b, where E = demo_env and publicKey = "''pkEve''" and k = 5
               and peerName = "''Bob''"]
          C1_key_exchange_is_repeated_not_ignored
            [OF a b, where E = demo_env and publicKey = "''bad''" and k = 0
               and peerName = "''Bob''"]
          d2 d0 before
    unfolding n entry by blast
qed

text \<open>
  C2, as the code has it. \<^verbatim>\<open>sendToPeer\<close> never reads the field \<^verbatim>\<open>state\<close>. For a
  session in the table: without a shared key the message is appended to
  \<^verbatim>\<open>pendingMessages\<close> and the result is true, whatever the state of the session or of
  its channel; with a shared key and a channel that is missing or not open the result is
  false and nothing is queued; with a shared key and an open channel the message is
  serialized, encrypted and transmitted with result true, or the result is false when
  encryption or transmission fails.
\<close>

theorem C2_send_decides_on_key_and_channel:
  assumes "map_of (peers s) peerId = Some p"
  shows "(sharedKey p = None \<longrightarrow>
            sendToPeer E peerId messageObj s =
              (True, set_peer peerId (p\<lparr>pendingMessages := pendingMessages p @ [messageObj]\<rparr>) s))
       \<and> (sharedKey p \<noteq> None \<and> \<not> channelOpen p \<longrightarrow>
            sendToPeer E peerId messageObj s =
              (False, console_out (ConsoleWarn (''[RTC] Channel not open for '' @ peerId)) s))
       \<and> (sharedKey p = Some k \<and> dataChannel p = Some dc \<and> readyState dc = DcOpen \<and>
          transmittable E k messageObj = Some encrypted \<longrightarrow>
            sendToPeer E peerId messageObj s =
              (True, set_peer peerId
                       (p\<lparr>dataChannel := Some (dc\<lparr>sent := sent dc @ [Data encrypted]\<rparr>)\<rparr>) s))
       \<and> (sharedKey p = Some k \<and> channelOpen p \<and> transmittable E k messageObj = None \<longrightarrow>
            sendToPeer E peerId messageObj s =
              (False, console_out (ConsoleError (''[RTC] Send error to '' @ peerId @ '':'')) s))"
  using assms
  by (auto simp: sendToPeer_def channelOpen_def transmittable_def split: option.splits if_splits)

text \<open>
  A session just created by \<^verbatim>\<open>connectToPeer\<close> is in state \<^verbatim>\<open>'connecting'\<close>, neither
  channel-open nor encrypted, and a send to it is accepted and queued.
\<close>

theorem C2_counterexample:
  "map_option state (map_of (peers st_connecting) ''bob'') = Some StConnecting
   \<and> fst (sendToPeer demo_env ''bob'' hello st_connecting) = True
   \<and> map_option pendingMessages
       (map_of (peers (snd (sendToPeer demo_env ''bob'' hello st_connecting))) ''bob'') = Some [hello]"
  by (simp add: st_connecting_eq sendToPeer_def set_peer_def)

theorem C2_witness:
  "sendToPeer demo_env ''bob'' hello st_connecting =
     (True, set_peer ''bob''
        ((snd (hd (peers st_connecting)))\<lparr>pendingMessages := [] @ [hello]\<rparr>) st_connecting)
   \<and> sendToPeer demo_env ''bob'' hello st_closing =
       (False, console_out (ConsoleWarn (''[RTC] Channel not open for '' @ ''bob'')) st_closing)
   \<and> sendToPeer demo_env ''bob'' hello st_encrypted =
       (True, set_peer ''bob''
          ((snd (hd (peers st_encrypted)))
             \<lparr>dataChannel := Some (\<lparr>readyState = DcOpen, sent = [Control (Some ''pkA'')]\<rparr>
                 \<lparr>sent := [Control (Some ''pkA'')] @ [Data ''enc:hello'']\<rparr>)\<rparr>) st_encrypted)
   \<and> sendToPeer demo_env ''bob'' essay st_encrypted =
       (False, console_out (ConsoleError (''[RTC] Send error to '' @ ''bob'' @ '':'')) st_encrypted)"
proof -
  let ?dc = "\<lparr>readyState = DcOpen, sent = [Control (Some ''pkA'')]\<rparr>"
  have c2: "sharedKey (snd (hd (peers st_closing))) \<noteq> None \<and>
            \<not> channelOpen (snd (hd (peers st_closing)))"
    by (simp add: st_closing_bob)
  have e2: "sharedKey (snd (hd (peers st_encrypted))) = Some 3 \<and>
            dataChannel (snd (hd (peers st_encrypted))) = Some ?dc \<and> readyState ?dc = DcOpen \<and>
            transmittable demo_env 3 hello = Some ''enc:hello''"
    by (simp add: st_encrypted_eq transmittable_def demo_env_def hello_def)
  have e3: "sharedKey (snd (hd (peers st_encrypted))) = Some 3 \<and>
            channelOpen (snd (hd (peers st_encrypted))) \<and>
            transmittable demo_env 3 essay = None"
    by (simp add: st_encrypted_eq channelOpen_def transmittable_def demo_env_def essay_def)
  show ?thesis
    using C2_send_decides_on_key_and_channel
            [OF st_connecting_bob(1), where E = demo_env and messageObj = hello]
      C2_send_decides_on_key_and_channel
            [OF st_closing_bob(1), where E = demo_env and messageObj = hello]
      C2_send_decides_on_key_and_channel
            [OF st_encrypted_bob(1), where E = demo_env and messageObj = hello and k = 3
               and dc = ?dc and encrypted = "''enc:hello''"]
      C2_send_decides_on_key_and_channel
            [OF st_encrypted_bob(1), where E = demo_env and messageObj = essay and k = 3]
      st_connecting_bob(2) c2 e2 e3
    unfolding st_connecting_bob(4)
    by (simp del: append.simps)
qed

text \<open>
  C3, as the code has it. For a session without a shared key whose channel is open, and
  messages submitted to it one after the other: when a key-exchange frame with a public key
  that the provider accepts is then handled, the key is stored, the session is marked
  encrypted, the queue is emptied, and the channel has received, after what it had sent
  before, the frames of the queued messages in their submission order, a message whose
  encryption or transmission fails being left out. When every queued message encrypts and
  transmits, the channel has received exactly their frames, in order.
\<close>

theorem C3_flush_in_submission_order_on_open_channel:
  assumes "map_of (peers s) peerId = Some p"
    and "sharedKey p = None"
    and "dataChannel p = Some dc"
    and "readyState dc = DcOpen"
    and "completeKeyExchange E publicKey = Some k"
  shows "map_of (peers (snd (handleSignal E peerId peerName (KeyExchange (Some publicKey))
                               (submitAll E peerId ms s)))) peerId =
           Some (p\<lparr>sharedKey := Some k, state := StEncrypted,
                   dataChannel := Some (dc\<lparr>sent := sent dc @
                      map Data (List.map_filter (transmittable E k) (pendingMessages p @ ms))\<rparr>),
                   pendingMessages := []\<rparr>)
       \<and> (map (transmittable E k) (pendingMessages p @ ms) = map Some frames \<longrightarrow>
            map_of (peers (snd (handleSignal E peerId peerName (KeyExchange (Some publicKey))
                                  (submitAll E peerId ms s)))) peerId =
              Some (p\<lparr>sharedKey := Some k, state := StEncrypted,
                      dataChannel := Some (dc\<lparr>sent := sent dc @ map Data frames\<rparr>),
                      pendingMessages := []\<rparr>))"
proof -
  let ?q = "p\<lparr>pendingMessages := pendingMessages p @ ms\<rparr>"
  let ?s1 = "submitAll E peerId ms s"
  have p1: "peers ?s1 = AList.update peerId ?q (peers s)"
    using submitAll_unkeyed [OF assms(1,2)] by simp
  have look: "map_of (peers ?s1) peerId = Some ?q"
    by (simp add: p1 AList.update_conv')
  have tr: "transmit E k (pendingMessages ?q) (dataChannel ?q) =
              Some (dc\<lparr>sent := sent dc @
                      map Data (List.map_filter (transmittable E k) (pendingMessages p @ ms))\<rparr>)"
    using assms(3,4) by (simp add: transmit_def)
  have main:
    "map_of (peers (snd (handleSignal E peerId peerName (KeyExchange (Some publicKey)) ?s1))) peerId =
       Some (p\<lparr>sharedKey := Some k, state := StEncrypted,
               dataChannel := Some (dc\<lparr>sent := sent dc @
                  map Data (List.map_filter (transmittable E k) (pendingMessages p @ ms))\<rparr>),
               pendingMessages := []\<rparr>)"
    unfolding keyExchange_success(2) [OF look assms(5)] tr
    by (simp add: AList.update_conv')
  show ?thesis
    using main map_filter_all_Some [of "transmittable E k" "pendingMessages p @ ms" frames]
    by simp
qed

text \<open>
  Two messages are queued for Bob while his channel is still connecting; a key-exchange
  signal is then handled. The key is set, the session is marked encrypted and the queue is
  empty, but the channel has sent nothing: both messages are gone. And with the channel
  open, a key-exchange frame whose public key cannot be imported derives no key: the
  handler only logs, and the session stays unencrypted with its queue.
\<close>

theorem C3_counterexample:
  "map_option pendingMessages (map_of (peers st_queued) ''bob'') = Some [hello, world]
   \<and> map_of (peers (snd (handleSignal demo_env ''bob'' ''Bob'' (KeyExchange (Some ''pkB''))
                           st_queued))) ''bob'' =
       Some \<lparr>connection = \<lparr>remoteDescription = None, localDescription = Some ''offer'',
                           remoteCandidates = []\<rparr>,
             dataChannel = Some \<lparr>readyState = DcConnecting, sent = []\<rparr>,
             sharedKey = Some 3, name = ''Bob'', state = StEncrypted,
             isInitiator = True, pendingMessages = []\<rparr>
   \<and> map_option (\<lambda>p. (sharedKey p, state p, pendingMessages p))
         (map_of (peers st_queued_open) ''bob'') = Some (None, StOpen, [hello, world])
   \<and> dc_onmessage demo_env ''bob'' (Control (Some ''bad'')) st_queued_open =
       console_out (ConsoleError ''[RTC] Key exchange failed:'') st_queued_open"
proof -
  have q: "peers st_queued =
             AList.update ''bob''
               ((snd (hd (peers st_connecting)))\<lparr>pendingMessages := [hello, world]\<rparr>)
               (peers st_connecting)"
    using submitAll_unkeyed [OF st_connecting_bob(1,2), of demo_env "[hello, world]"]
    by (simp add: st_queued_def st_connecting_bob)
  have look: "map_of (peers st_queued) ''bob'' =
                Some ((snd (hd (peers st_connecting)))\<lparr>pendingMessages := [hello, world]\<rparr>)"
    by (simp add: q AList.update_conv')
  have d: "completeKeyExchange demo_env ''pkB'' = Some 3" by (simp add: demo_env_def)
  have first: "map_of (peers (snd (handleSignal demo_env ''bob'' ''Bob'' (KeyExchange (Some ''pkB''))
                           st_queued))) ''bob'' =
       Some \<lparr>connection = \<lparr>remoteDescription = None, localDescription = Some ''offer'',
                           remoteCandidates = []\<rparr>,
             dataChannel = Some \<lparr>readyState = DcConnecting, sent = []\<rparr>,
             sharedKey = Some 3, name = ''Bob'', state = StEncrypted,
             isInitiator = True, pendingMessages = []\<rparr>"
    unfolding keyExchange_success(2) [OF look d]
    by (simp add: AList.update_conv' transmit_def st_connecting_eq)
  have qo: "peers st_queued_open =
             AList.update ''bob''
               ((snd (hd (peers st_open)))\<lparr>pendingMessages := [hello, world]\<rparr>)
               (peers st_open)"
    using submitAll_unkeyed [OF st_open_bob(1,2), of demo_env "[hello, world]"]
    by (simp add: st_queued_open_def st_open_bob)
  have looko: "map_of (peers st_queued_open) ''bob'' =
                Some ((snd (hd (peers st_open)))\<lparr>pendingMessages := [hello, world]\<rparr>)"
    by (simp add: qo AList.update_conv')
  have second: "dc_onmessage demo_env ''bob'' (Control (Some ''bad'')) st_queued_open =
                  console_out (ConsoleError ''[RTC] Key exchange failed:'') st_queued_open"
    by (simp add: dc_onmessage_def handleSignal_def looko demo_env_def)
  show ?thesis
    using first second by (simp add: look looko st_open_eq)
qed

theorem C3_witness:
  "map_of (peers (snd (handleSignal demo_env ''bob'' ''Bob'' (KeyExchange (Some ''pkB''))
                         (submitAll demo_env ''bob'' [hello, world] st_open)))) ''bob'' =
     Some \<lparr>connection = \<lparr>remoteDescription = None, localDescription = Some ''offer'',
                         remoteCandidates = []\<rparr>,
           dataChannel = Some \<lparr>readyState = DcOpen,
              sent = [Control (Some ''pkA''), Data ''enc:hello'', Data ''enc:world'']\<rparr>,
           sharedKey = Some 3, name = ''Bob'', state = StEncrypted,
           isInitiator = True, pendingMessages = []\<rparr>"
proof -
  have d: "completeKeyExchange demo_env ''pkB'' = Some 3" by (simp add: demo_env_def)
  have o: "readyState \<lparr>readyState = DcOpen, sent = [Control (Some ''pkA'')]\<rparr> = DcOpen" by simp
  have f: "map (transmittable demo_env 3) (pendingMessages (snd (hd (peers st_open))) @ [hello, world]) =
             map Some [''enc:hello'', ''enc:world'']"
    by (simp add: st_open_bob transmittable_def demo_env_def hello_def world_def)
  show ?thesis
    using C3_flush_in_submission_order_on_open_channel
            [OF st_open_bob(1) st_open_bob(2) st_open_bob(4) o d,
             where peerName = "''Bob''" and ms = "[hello, world]"
               and frames = "[''enc:hello'', ''enc:world'']"] f
    by (simp add: st_open_eq)
qed

text \<open>
  C4, as the code has it. For a table of \<open>N\<close> sessions with distinct ids of which \<open>M\<close>
  have a shared key, \<^verbatim>\<open>broadcast\<close> calls \<^verbatim>\<open>sendToPeer\<close> for every session in table
  order and returns one result per session; the result and the effect for a session depend
  on that session alone, so a failure for one never stops the others. Exactly \<open>N - M\<close>
  messages are queued (one for each session without a key). A session with a key gets the
  message transmitted when its channel is open and encryption and transmission succeed, so
  at most \<open>M\<close> messages are transmitted, and exactly \<open>M\<close> when that holds for every
  session with a key. A queued message is transmitted after the earlier queue when the key
  exchange of its session later succeeds on an open channel.
\<close>

theorem C4_broadcast_outcomes:
  assumes "distinct (map fst (peers s))"
  shows "fst (broadcast E m s) = map (\<lambda>e. send_result E m (snd e)) (peers s)
       \<and> length (fst (broadcast E m s)) = length (peers s)
       \<and> peers (snd (broadcast E m s)) = map (\<lambda>e. (fst e, send_effect E m (snd e))) (peers s)
       \<and> queued_total (snd (broadcast E m s)) =
           queued_total s + (length (peers s) - length (keyed s))
       \<and> sent_total (snd (broadcast E m s)) =
           sent_total s + length (filter (\<lambda>e. delivers E m (snd e)) (peers s))
       \<and> length (filter (\<lambda>e. delivers E m (snd e)) (peers s)) \<le> length (keyed s)
       \<and> (list_all (\<lambda>e. send_result E m (snd e)) (keyed s) \<longrightarrow>
            sent_total (snd (broadcast E m s)) = sent_total s + length (keyed s))
       \<and> (map_of (peers s) peerId = Some p \<and> sharedKey p = None \<and> dataChannel p = Some dc \<and>
          readyState dc = DcOpen \<and> completeKeyExchange E publicKey = Some k \<longrightarrow>
            map_of (peers (snd (handleSignal E peerId peerName (KeyExchange (Some publicKey))
                                  (snd (broadcast E m s))))) peerId =
              Some (p\<lparr>sharedKey := Some k, state := StEncrypted,
                      dataChannel := Some (dc\<lparr>sent := sent dc @
                        map Data (List.map_filter (transmittable E k) (pendingMessages p @ [m]))\<rparr>),
                      pendingMessages := []\<rparr>))"
proof (intro conjI impI)
  show res: "fst (broadcast E m s) = map (\<lambda>e. send_result E m (snd e)) (peers s)"
    by (simp add: broadcast_char(1) [OF assms] case_prod_beta)
  show "length (fst (broadcast E m s)) = length (peers s)"
    by (simp add: res)
  show "peers (snd (broadcast E m s)) = map (\<lambda>e. (fst e, send_effect E m (snd e))) (peers s)"
    by (simp add: broadcast_char(2) [OF assms] case_prod_beta)
  show "queued_total (snd (broadcast E m s)) =
          queued_total s + (length (peers s) - length (keyed s))"
    by (rule queued_total_broadcast [OF assms])
  show "sent_total (snd (broadcast E m s)) =
          sent_total s + length (filter (\<lambda>e. delivers E m (snd e)) (peers s))"
    by (rule sent_total_broadcast [OF assms])
  show "length (filter (\<lambda>e. delivers E m (snd e)) (peers s)) \<le> length (keyed s)"
    by (rule delivers_le_keyed)
  show "sent_total (snd (broadcast E m s)) = sent_total s + length (keyed s)"
    if "list_all (\<lambda>e. send_result E m (snd e)) (keyed s)"
    using sent_total_broadcast [OF assms, of E m] delivers_all_keyed [OF that] by simp
next
  assume h: "map_of (peers s) peerId = Some p \<and> sharedKey p = None \<and> dataChannel p = Some dc \<and>
             readyState dc = DcOpen \<and> completeKeyExchange E publicKey = Some k"
  let ?q = "p\<lparr>pendingMessages := pendingMessages p @ [m]\<rparr>"
  have look: "map_of (peers (snd (broadcast E m s))) peerId = Some ?q"
    using broadcast_queued_lookup [OF assms, of peerId p E m] h by simp
  have d: "completeKeyExchange E publicKey = Some k" using h by simp
  have tr: "transmit E k (pendingMessages ?q) (dataChannel ?q) =
              Some (dc\<lparr>sent := sent dc @
                      map Data (List.map_filter (transmittable E k) (pendingMessages p @ [m]))\<rparr>)"
    using h by (simp add: transmit_def)
  show "map_of (peers (snd (handleSignal E peerId peerName (KeyExchange (Some publicKey))
                              (snd (broadcast E m s))))) peerId =
          Some (p\<lparr>sharedKey := Some k, state := StEncrypted,
                  dataChannel := Some (dc\<lparr>sent := sent dc @
                    map Data (List.map_filter (transmittable E k) (pendingMessages p @ [m]))\<rparr>),
                  pendingMessages := []\<rparr>)"
    unfolding keyExchange_success(2) [OF look d] tr
    by (simp add: AList.update_conv')
qed

text \<open>
  Bob is encrypted but his channel is closing, Carol has no key yet: of the two sessions
  one is encrypted, and the broadcast transmits nothing.
\<close>

theorem C4_counterexample:
  "length (peers st_two) = 2
   \<and> map (\<lambda>e. (fst e, state (snd e))) (keyed st_two) = [(''bob'', StEncrypted)]
   \<and> fst (broadcast demo_env hello st_two) = [False, True]
   \<and> sent_total (snd (broadcast demo_env hello st_two)) = sent_total st_two
   \<and> queued_total (snd (broadcast demo_env hello st_two)) = queued_total st_two + 1"
  by (simp add: st_two_peers keyed_def broadcast_def sendToPeer_def set_peer_def
      sent_total_def sent_count_def queued_total_def)

theorem C4_witness:
  "fst (broadcast demo_env hello st_mesh) = [True, True]
   \<and> length (peers st_mesh) = 2 \<and> length (keyed st_mesh) = 1
   \<and> queued_total (snd (broadcast demo_env hello st_mesh)) = queued_total st_mesh + 1
   \<and> sent_total (snd (broadcast demo_env hello st_mesh)) = sent_total st_mesh + 1
   \<and> map_option (\<lambda>p. (sharedKey p, state p, dataChannel p, pendingMessages p))
       (map_of (peers (snd (handleSignal demo_env ''carol'' ''Carol'' (KeyExchange (Some ''pkC''))
                             (snd (broadcast demo_env hello st_mesh))))) ''carol'') =
       Some (Some 3, StEncrypted,
             Some \<lparr>readyState = DcOpen, sent = [Control (Some ''pkA''), Data ''enc:hello'']\<rparr>, [])"
proof -
  let ?dc = "\<lparr>readyState = DcOpen, sent = [Control (Some ''pkA'')]\<rparr>"
  let ?carol = "snd (hd (tl (peers st_mesh)))"
  have dist: "distinct (map fst (peers st_mesh))" by (simp add: st_mesh_peers)
  have n: "length (peers st_mesh) = 2" "length (keyed st_mesh) = 1"
    by (simp_all add: st_mesh_peers keyed_def)
  have all: "list_all (\<lambda>e. send_result demo_env hello (snd e)) (keyed st_mesh)"
    by (simp add: st_mesh_peers keyed_def send_result_def channelOpen_def transmittable_def
        demo_env_def hello_def)
  have res: "map (\<lambda>e. send_result demo_env hello (snd e)) (peers st_mesh) = [True, True]"
    by (simp add: st_mesh_peers send_result_def channelOpen_def transmittable_def
        demo_env_def hello_def)
  have carol: "map_of (peers st_mesh) ''carol'' = Some ?carol \<and> sharedKey ?carol = None \<and>
               dataChannel ?carol = Some ?dc \<and> readyState ?dc = DcOpen \<and>
               completeKeyExchange demo_env ''pkC'' = Some 3"
    by (simp add: st_mesh_peers demo_env_def)
  have fl: "List.map_filter (transmittable demo_env 3) (pendingMessages ?carol @ [hello]) =
              [''enc:hello'']"
    by (simp add: st_mesh_peers List.map_filter_simps transmittable_def demo_env_def hello_def)
  show ?thesis
    using C4_broadcast_outcomes
            [OF dist, where E = demo_env and m = hello and peerId = "''carol''" and p = ?carol
               and dc = ?dc and publicKey = "''pkC''" and k = 3 and peerName = "''Carol''"]
      all carol
    unfolding res n fl by simp
qed

text \<open>
  C5. For a session in the table, the first teardown trigger for its peer id (a transport
  state \<^verbatim>\<open>disconnected\<close>, \<^verbatim>\<open>failed\<close> or \<^verbatim>\<open>closed\<close>, a closed channel, or
  \<^verbatim>\<open>disconnectPeer\<close>) removes the session and emits one \<^verbatim>\<open>peer-disconnected\<close>
  event; whatever triggers follow for that id, the table stays as the first one left it and
  no further event is emitted. \<^verbatim>\<open>disconnectAll\<close> on a table with distinct ids emits
  one such event for each session, in table order.
\<close>

theorem C5_teardown_once_one_notification:
  assumes "map_of (peers s) peerId = Some p"
    and "tears_down t"
  shows "peers (fold (fire peerId) (t # ts) s) = AList.delete peerId (peers s) \<and>
         map_of (peers (fold (fire peerId) (t # ts) s)) peerId = None \<and>
         events (fold (fire peerId) (t # ts) s) = events s @ [PeerDisconnected peerId (name p)] \<and>
         (distinct (map fst (peers s)) \<longrightarrow>
            events (disconnectAll s) =
              events s @ map (\<lambda>e. PeerDisconnected (fst e) (name (snd e))) (peers s))"
proof -
  have one: "peers (fire peerId t s) = AList.delete peerId (peers s)"
    "events (fire peerId t s) = events s @ [PeerDisconnected peerId (name p)]"
    using fire_present [OF assms] by simp_all
  have gone: "map_of (peers (fire peerId t s)) peerId = None"
    by (simp add: one)
  have all: "events (disconnectAll s) =
               events s @ map (\<lambda>e. PeerDisconnected (fst e) (name (snd e))) (peers s)"
    if "distinct (map fst (peers s))"
    using fold_handlePeerDisconnect_events [OF refl that] by (simp add: disconnectAll_def)
  show ?thesis
    using fold_fire_absent [OF gone, of ts] one all by simp
qed

theorem C5_witness:
  "peers (fold (fire ''bob'') [IceStateChange IceFailed, ChannelClose, ExplicitDisconnect]
            st_encrypted) = []
   \<and> events (fold (fire ''bob'') [IceStateChange IceFailed, ChannelClose, ExplicitDisconnect]
               st_encrypted) =
       events st_encrypted @ [PeerDisconnected ''bob'' ''Bob'']
   \<and> events (disconnectAll st_encrypted) = events st_encrypted @ [PeerDisconnected ''bob'' ''Bob'']"
proof -
  have b: "tears_down (IceStateChange IceFailed)" by simp
  have d: "AList.delete ''bob'' (peers st_encrypted) = []" by (simp add: st_encrypted_eq)
  have dist: "distinct (map fst (peers st_encrypted))" by (simp add: st_encrypted_eq)
  have m: "map (\<lambda>e. PeerDisconnected (fst e) (name (snd e))) (peers st_encrypted) =
             [PeerDisconnected ''bob'' ''Bob'']"
    by (simp add: st_encrypted_eq)
  show ?thesis
    using C5_teardown_once_one_notification
            [OF st_encrypted_bob(1) b, of "[ChannelClose, ExplicitDisconnect]"] dist
    unfolding st_encrypted_bob(3) d m by blast
qed

text \<open>
  C6. \<^verbatim>\<open>disconnectPeer\<close> changes nothing when the id is not in the table, and a second
  call for the same id changes nothing and emits nothing; \<^verbatim>\<open>disconnectAll\<close> is
  idempotent, changes nothing on an empty table, and leaves a table whose roster is empty.
\<close>

theorem C6_disconnect_idempotent:
  "(map_of (peers s) peerId = None \<longrightarrow> disconnectPeer peerId s = s)
   \<and> disconnectPeer peerId (disconnectPeer peerId s) = disconnectPeer peerId s
   \<and> disconnectAll (disconnectAll s) = disconnectAll s
   \<and> (peers s = [] \<longrightarrow> disconnectAll s = s)
   \<and> getPeerList (disconnectAll s) = []"
proof (intro conjI impI)
  show "map_of (peers s) peerId = None \<Longrightarrow> disconnectPeer peerId s = s"
    by (simp add: disconnectPeer_def handlePeerDisconnect_absent)
  show "disconnectPeer peerId (disconnectPeer peerId s) = disconnectPeer peerId s"
    by (simp add: disconnectPeer_def handlePeerDisconnect_idem)
  show "disconnectAll (disconnectAll s) = disconnectAll s"
    by (simp add: disconnectAll_def)
  show "peers s = [] \<Longrightarrow> disconnectAll s = s"
    by (simp add: disconnectAll_def)
  show "getPeerList (disconnectAll s) = []"
    by (simp add: getPeerList_def disconnectAll_def)
qed

theorem C6_witness:
  "map_of (peers (disconnectPeer ''bob'' st_encrypted)) ''bob'' = None
   \<and> disconnectPeer ''bob'' (disconnectPeer ''bob'' st_encrypted) = disconnectPeer ''bob'' st_encrypted
   \<and> peers (disconnectAll st_encrypted) = []
   \<and> disconnectAll (disconnectAll st_encrypted) = disconnectAll st_encrypted
   \<and> getPeerList (disconnectAll st_encrypted) = []"
proof -
  have a: "map_of (peers (disconnectPeer ''bob'' st_encrypted)) ''bob'' = None"
    by (simp add: disconnectPeer_def)
  have b: "peers (disconnectAll st_encrypted) = []"
    by (simp add: disconnectAll_def)
  show ?thesis
    using C6_disconnect_idempotent [of "disconnectPeer ''bob'' st_encrypted" "''bob''"]
      C6_disconnect_idempotent [of "disconnectAll st_encrypted" "''bob''"]
      C6_disconnect_idempotent [of st_encrypted "''bob''"] a b
    by simp
qed

text \<open>
  C7. While no connection attempt succeeds, a close of the signaling socket sets one
  reconnection timer, always with the delay 3000, as long as fewer than 5 attempts have been
  counted: a run of socket events sets as many timers as it has closes, but no more than 5
  less the attempts already counted. Once 5 attempts are counted, a close reports
  \<^verbatim>\<open>failed\<close> after \<^verbatim>\<open>disconnected\<close>, leaves the count where it is and sets no
  timer, and no later run of events sets one.
\<close>

theorem C7_reconnection_bounded:
  "MAX_RECONNECT = 5 \<and> RECONNECT_DELAY = 3000 \<and>
   timers (fold ws_step evs g) =
     timers g @ replicate (min (count_list evs WsClose) (5 - reconnectAttempts g)) 3000 \<and>
   (reconnectAttempts g \<ge> 5 \<longrightarrow>
      timers (fold ws_step evs g) = timers g \<and>
      ws_onclose g =
        g\<lparr>statuses := statuses g @
             [StatusDisconnected, StatusFailed ''Max reconnection attempts reached'']\<rparr>)"
  using fold_ws_step_timers [of evs g]
  by (simp add: MAX_RECONNECT_def RECONNECT_DELAY_def ws_onclose_def attemptReconnect_def)

theorem C7_witness:
  "timers sig_exhausted = [3000, 3000, 3000, 3000, 3000]
   \<and> 5 \<le> reconnectAttempts sig_exhausted
   \<and> timers (fold ws_step [WsClose, WsClose] sig_exhausted) = timers sig_exhausted
   \<and> ws_onclose sig_exhausted =
       sig_exhausted\<lparr>statuses := statuses sig_exhausted @
          [StatusDisconnected, StatusFailed ''Max reconnection attempts reached'']\<rparr>"
proof -
  have a: "5 \<le> reconnectAttempts sig_exhausted" by (simp add: sig_exhausted_eq)
  have t: "timers sig_exhausted = [3000, 3000, 3000, 3000, 3000]" by (simp add: sig_exhausted_eq)
  show ?thesis
    using C7_reconnection_bounded [where g = sig_exhausted and evs = "[WsClose, WsClose]"] a t
    by blast
qed

text \<open>
  C8. For a session with a shared key, an application frame that fails to decrypt is
  dropped: the handler only logs an error. The table (the session with its state, key and
  queue) and the emitted events are as before, so no disconnect event is emitted, and a
  later frame that decrypts and parses is delivered as a message event.
\<close>

theorem C8_decrypt_failure_drops_one_frame:
  assumes "map_of (peers s) peerId = Some p"
    and "sharedKey p = Some k"
    and "decrypt E k d = None"
  shows "dc_onmessage E peerId (Data d) s =
           console_out (ConsoleError ''[RTC] Message decode error:'') s
       \<and> peers (dc_onmessage E peerId (Data d) s) = peers s
       \<and> events (dc_onmessage E peerId (Data d) s) = events s
       \<and> (decrypt E k d' = Some pt \<and> JSON_parse E pt = Some m \<longrightarrow>
            events (dc_onmessage E peerId (Data d') (dc_onmessage E peerId (Data d) s)) =
              events s @ [message_event peerId (name p) m])"
  using assms by (simp add: dc_onmessage_def)

theorem C8_witness:
  "dc_onmessage demo_env ''bob'' (Data ''garbage'') st_encrypted =
     console_out (ConsoleError ''[RTC] Message decode error:'') st_encrypted
   \<and> peers (dc_onmessage demo_env ''bob'' (Data ''garbage'') st_encrypted) = peers st_encrypted
   \<and> events (dc_onmessage demo_env ''bob'' (Data ''garbage'') st_encrypted) = events st_encrypted
   \<and> events (dc_onmessage demo_env ''bob'' (Data ''enc:hello'')
        (dc_onmessage demo_env ''bob'' (Data ''garbage'') st_encrypted)) =
       events st_encrypted @
         [MessageReceived ''bob'' ''Bob'' \<lparr>msg_text = ''hello'', msg_time = 0, msg_type = ''chat''\<rparr>]"
proof -
  have c: "decrypt demo_env 3 ''garbage'' = None" by (simp add: demo_env_def)
  have d: "decrypt demo_env 3 ''enc:hello'' = Some ''hello'' \<and>
           JSON_parse demo_env ''hello'' =
             Some \<lparr>own_fromPeerId = None, own_fromName = None,
                   body = \<lparr>msg_text = ''hello'', msg_time = 0, msg_type = ''chat''\<rparr>\<rparr>"
    by (simp add: demo_env_def)
  have me: "message_event ''bob'' ''Bob''
              \<lparr>own_fromPeerId = None, own_fromName = None,
                 body = \<lparr>msg_text = ''hello'', msg_time = 0, msg_type = ''chat''\<rparr>\<rparr> =
            MessageReceived ''bob'' ''Bob'' \<lparr>msg_text = ''hello'', msg_time = 0, msg_type = ''chat''\<rparr>"
    by (simp add: message_event_def)
  show ?thesis
    using C8_decrypt_failure_drops_one_frame
            [OF st_encrypted_bob(1) st_encrypted_bob(2) c,
             where d' = "''enc:hello''" and pt = "''hello''"
               and m = "\<lparr>own_fromPeerId = None, own_fromName = None,
                          body = \<lparr>msg_text = ''hello'', msg_time = 0, msg_type = ''chat''\<rparr>\<rparr>"] d
    unfolding st_encrypted_bob(3) me by blast
qed




text \<open>
  C10. For a session whose shared key is set and whose data channel is missing or not
  open, \<^verbatim>\<open>sendToPeer\<close> returns false and only logs a warning: the table is unchanged,
  so the message is neither transmitted nor appended to the queue.
\<close>

theorem C10_send_with_key_on_closed_channel_drops:
  assumes "map_of (peers s) peerId = Some p"
    and "sharedKey p = Some k"
    and "\<not> channelOpen p"
  shows "sendToPeer E peerId messageObj s =
           (False, console_out (ConsoleWarn (''[RTC] Channel not open for '' @ peerId)) s)
         \<and> peers (snd (sendToPeer E peerId messageObj s)) = peers s"
  using assms
  by (auto simp: sendToPeer_def channelOpen_def console_out_def split: option.splits)

theorem C10_witness:
  "sendToPeer demo_env ''bob'' hello st_closing =
     (False, console_out (ConsoleWarn (''[RTC] Channel not open for '' @ ''bob'')) st_closing)
   \<and> peers (snd (sendToPeer demo_env ''bob'' hello st_closing)) = peers st_closing"
  by (rule C10_send_with_key_on_closed_channel_drops [OF st_closing_bob])

end
